theory Spec2Isabelle
  imports Complex_Main
begin

section \<open>JavaScript numbers\<close>

text \<open>
  The scoring code of \<^verbatim>\<open>src/reputation/utils\<close> computes on JavaScript numbers. They are
  modelled as exact reals extended with the three special values a JavaScript operation
  can produce: \<open>Infinity\<close>, \<open>-Infinity\<close> and \<open>NaN\<close>. Division by zero, \<open>0/0\<close>,
  \<open>Infinity - Infinity\<close> and the propagation of \<open>NaN\<close> follow ECMAScript. Two things are
  idealised: finite arithmetic is exact (no rounding to binary64, no overflow), and the
  sign of zero is not kept (a zero divisor counts as \<open>+0\<close>).

  So \<open>Fin 0\<close> is the number \<open>+0\<close>, and \<open>-0\<close> has no counterpart. \<open>Math.pow\<close> is the
  one operation whose results leave the range of binary64 at ordinary arguments, and its
  finite results are cut to that range (\<open>pow_result\<close> below). The statements about the
  other operations bound their arguments where the range or the rounding of binary64
  would change the outcome.
\<close>

datatype jsnum = Fin real | PInf | NInf | NaN

text \<open>The infinity with the sign of \<open>s\<close>; \<open>NaN\<close> when \<open>s\<close> is zero.\<close>

definition inf_of_sign :: "real \<Rightarrow> jsnum" where
  "inf_of_sign s = (if s = 0 then NaN else if 0 < s then PInf else NInf)"

fun sign_of :: "jsnum \<Rightarrow> real" where
  "sign_of (Fin x) = sgn x"
| "sign_of PInf = 1"
| "sign_of NInf = - 1"
| "sign_of NaN = 0"

fun js_neg :: "jsnum \<Rightarrow> jsnum" where
  "js_neg (Fin x) = Fin (- x)"
| "js_neg PInf = NInf"
| "js_neg NInf = PInf"
| "js_neg NaN = NaN"

fun js_add :: "jsnum \<Rightarrow> jsnum \<Rightarrow> jsnum" where
  "js_add NaN b = NaN"
| "js_add a NaN = NaN"
| "js_add (Fin x) (Fin y) = Fin (x + y)"
| "js_add (Fin x) b = b"
| "js_add a (Fin y) = a"
| "js_add PInf PInf = PInf"
| "js_add NInf NInf = NInf"
| "js_add PInf NInf = NaN"
| "js_add NInf PInf = NaN"

definition js_sub :: "jsnum \<Rightarrow> jsnum \<Rightarrow> jsnum" where
  "js_sub a b = js_add a (js_neg b)"

fun js_mul :: "jsnum \<Rightarrow> jsnum \<Rightarrow> jsnum" where
  "js_mul NaN b = NaN"
| "js_mul a NaN = NaN"
| "js_mul (Fin x) (Fin y) = Fin (x * y)"
| "js_mul a b = inf_of_sign (sign_of a * sign_of b)"

text \<open>
  \<open>a / b\<close>: a finite non-zero dividend over zero is an infinity, \<open>0 / 0\<close> and
  \<open>Infinity / Infinity\<close> are \<open>NaN\<close>, a finite dividend over an infinity is zero.
\<close>

fun js_div :: "jsnum \<Rightarrow> jsnum \<Rightarrow> jsnum" where
  "js_div NaN b = NaN"
| "js_div a NaN = NaN"
| "js_div (Fin x) (Fin y) = (if y = 0 then inf_of_sign (sgn x) else Fin (x / y))"
| "js_div (Fin x) b = Fin 0"
| "js_div a (Fin y) = inf_of_sign (sign_of a * (if y < 0 then - 1 else 1))"
| "js_div a b = NaN"

text \<open>\<open>Math.abs\<close>, \<open>Math.min\<close>, \<open>Math.max\<close> (\<open>NaN\<close> if either argument is).\<close>

fun js_abs :: "jsnum \<Rightarrow> jsnum" where
  "js_abs (Fin x) = Fin \<bar>x\<bar>"
| "js_abs PInf = PInf"
| "js_abs NInf = PInf"
| "js_abs NaN = NaN"

fun js_min :: "jsnum \<Rightarrow> jsnum \<Rightarrow> jsnum" where
  "js_min NaN b = NaN"
| "js_min a NaN = NaN"
| "js_min NInf b = NInf"
| "js_min a NInf = NInf"
| "js_min PInf b = b"
| "js_min a PInf = a"
| "js_min (Fin x) (Fin y) = Fin (min x y)"

fun js_max :: "jsnum \<Rightarrow> jsnum \<Rightarrow> jsnum" where
  "js_max NaN b = NaN"
| "js_max a NaN = NaN"
| "js_max PInf b = PInf"
| "js_max a PInf = PInf"
| "js_max NInf b = b"
| "js_max a NInf = a"
| "js_max (Fin x) (Fin y) = Fin (max x y)"

text \<open>
  \<open>Math.round\<close> rounds to the nearest integer, a tie towards \<open>+Infinity\<close>:
  \<open>\<lfloor>x + 1/2\<rfloor>\<close>, which is what \<^const>\<open>round\<close> is.
\<close>

fun js_round :: "jsnum \<Rightarrow> jsnum" where
  "js_round (Fin x) = Fin (of_int (round x))"
| "js_round a = a"

fun js_sqrt :: "jsnum \<Rightarrow> jsnum" where
  "js_sqrt (Fin x) = (if x < 0 then NaN else Fin (sqrt x))"
| "js_sqrt PInf = PInf"
| "js_sqrt NInf = NaN"
| "js_sqrt NaN = NaN"

text \<open>
  \<open>Math.pow(base, exponent)\<close> (ECMAScript \<open>Number::exponentiate\<close>, without the sign of
  zero): a \<open>NaN\<close> exponent gives \<open>NaN\<close>, a zero exponent gives 1 also for a \<open>NaN\<close>
  base, a negative finite base needs an integral exponent.
\<close>

definition is_integral :: "real \<Rightarrow> bool" where
  "is_integral e = (of_int \<lfloor>e\<rfloor> = e)"

definition is_odd_integral :: "real \<Rightarrow> bool" where
  "is_odd_integral e = (is_integral e \<and> odd \<lfloor>e\<rfloor>)"

definition int_power :: "real \<Rightarrow> int \<Rightarrow> real" where
  "int_power b k = (if 0 \<le> k then b ^ nat k else 1 / b ^ nat (- k))"

text \<open>
  A finite result of \<open>Math.pow\<close> that leaves the range of binary64: a magnitude of
  \<open>2 ^ 1024\<close> or more is an infinity, a magnitude of \<open>2 ^ -1075\<close> (half the least
  positive double) or less is zero. Inside the range the exact value is kept.
\<close>

definition pow_result :: "real \<Rightarrow> jsnum" where
  "pow_result x =
     (if 2 ^ 1024 \<le> \<bar>x\<bar> then inf_of_sign x
      else if \<bar>x\<bar> \<le> 1 / 2 ^ 1075 then Fin 0
      else Fin x)"

fun js_pow :: "jsnum \<Rightarrow> jsnum \<Rightarrow> jsnum" where
  "js_pow a NaN = NaN"
| "js_pow NaN (Fin e) = (if e = 0 then Fin 1 else NaN)"
| "js_pow NaN b = NaN"
| "js_pow (Fin b) (Fin e) =
     (if e = 0 then Fin 1
      else if 0 < b then pow_result (b powr e)
      else if b = 0 then (if 0 < e then Fin 0 else PInf)
      else if is_integral e then pow_result (int_power b \<lfloor>e\<rfloor>)
      else NaN)"
| "js_pow (Fin b) PInf =
     (if 1 < \<bar>b\<bar> then PInf else if \<bar>b\<bar> = 1 then NaN else Fin 0)"
| "js_pow (Fin b) NInf =
     (if 1 < \<bar>b\<bar> then Fin 0 else if \<bar>b\<bar> = 1 then NaN else PInf)"
| "js_pow PInf (Fin e) = (if e = 0 then Fin 1 else if 0 < e then PInf else Fin 0)"
| "js_pow PInf PInf = PInf"
| "js_pow PInf NInf = Fin 0"
| "js_pow NInf (Fin e) =
     (if e = 0 then Fin 1
      else if 0 < e then (if is_odd_integral e then NInf else PInf)
      else Fin 0)"
| "js_pow NInf PInf = PInf"
| "js_pow NInf NInf = Fin 0"

text \<open>The comparison \<open>a > b\<close>: false as soon as one side is \<open>NaN\<close>.\<close>

fun js_gt :: "jsnum \<Rightarrow> jsnum \<Rightarrow> bool" where
  "js_gt NaN b = False"
| "js_gt a NaN = False"
| "js_gt (Fin x) (Fin y) = (y < x)"
| "js_gt PInf PInf = False"
| "js_gt PInf b = True"
| "js_gt a PInf = False"
| "js_gt NInf b = False"
| "js_gt a NInf = True"

text \<open>
  Truthiness of an optional numeric field: \<open>undefined\<close>, \<open>0\<close> and \<open>NaN\<close> are falsy.
  \<open>num_or v d\<close> is the expression \<open>v || d\<close>.
\<close>

fun truthy :: "jsnum option \<Rightarrow> bool" where
  "truthy None = False"
| "truthy (Some (Fin x)) = (x \<noteq> 0)"
| "truthy (Some NaN) = False"
| "truthy (Some a) = True"

fun num_or :: "jsnum option \<Rightarrow> jsnum \<Rightarrow> jsnum" where
  "num_or None d = d"
| "num_or (Some a) d = (if truthy (Some a) then a else d)"

section \<open>Math primitives of the algorithm module\<close>

text \<open>
  \<open>applyTimeDecay(value, timestamp, halfLifeDays)\<close> reads the clock. The model takes what
  the two \<open>getTime()\<close> calls return as arguments. A time value is a whole number of
  milliseconds, of magnitude at most 8.64e15, or \<open>NaN\<close> for an invalid date: \<open>now\<close> is
  the time value of \<open>new Date()\<close>, which is always valid, and \<open>timestamp\<close> that of
  \<open>new Date(timestamp)\<close>, \<open>None\<close> when the string does not parse.
\<close>

definition time_value :: "int option \<Rightarrow> jsnum" where
  "time_value t = (case t of None \<Rightarrow> NaN | Some ms \<Rightarrow> Fin (of_int ms))"

definition applyTimeDecay :: "int \<Rightarrow> jsnum \<Rightarrow> int option \<Rightarrow> jsnum \<Rightarrow> jsnum" where
  "applyTimeDecay now value timestamp halfLifeDays =
     (let ageMs = js_sub (time_value (Some now)) (time_value timestamp);
          ageDays = js_div ageMs (Fin (1000 * 60 * 60 * 24))
      in js_mul value (js_pow (Fin 0.5) (js_div ageDays halfLifeDays)))"

definition normalizeScore :: "jsnum \<Rightarrow> jsnum \<Rightarrow> jsnum \<Rightarrow> jsnum" where
  "normalizeScore value mn mx =
     (let clampedValue = js_max mn (js_min mx value)
      in js_mul (js_div (js_sub clampedValue mn) (js_sub mx mn)) (Fin 100))"

text \<open>
  \<open>detectOutliers(values, zScoreThreshold = 2.5)\<close>. The two \<open>reduce\<close> calls are left
  folds from 0, the \<open>forEach\<close> is a left fold over the values paired with their indices
  that appends each outlier's index. An absent threshold is \<open>None\<close>.
\<close>

definition detectOutliers :: "jsnum list \<Rightarrow> jsnum option \<Rightarrow> nat list" where
  "detectOutliers values zScoreThreshold_opt =
     (let zScoreThreshold = (case zScoreThreshold_opt of None \<Rightarrow> Fin 2.5 | Some z \<Rightarrow> z)
      in if length values < 2 then []
         else
           let len = Fin (real (length values));
               mean = js_div (foldl (\<lambda>sum val. js_add sum val) (Fin 0) values) len;
               squaredDiffs = map (\<lambda>val. js_pow (js_sub val mean) (Fin 2)) values;
               variance = js_div (foldl (\<lambda>sum val. js_add sum val) (Fin 0) squaredDiffs) len;
               stdDev = js_sqrt variance
           in foldl (\<lambda>outliers (val, index).
                       let zScore = js_abs (js_div (js_sub val mean) stdDev)
                       in if js_gt zScore zScoreThreshold then outliers @ [index] else outliers)
                    [] (zip values [0..<length values]))"

section \<open>Data model\<close>

text \<open>
  \<open>IReputationDataComponents\<close> of \<^verbatim>\<open>types.ts\<close>: every category and every field is
  optional, an absent one is \<open>None\<close>.
\<close>

record PerformanceMetrics =
  uptime_percentage :: "jsnum option"
  avg_response_time_ms :: "jsnum option"
  error_rate :: "jsnum option"
  successful_transactions :: "jsnum option"

record VerificationDetails =
  level :: "string option"
  verified_at :: "string option"
  methods :: "string list option"

record FeedbackMetrics =
  average_rating :: "jsnum option"
  rating_count :: "jsnum option"
  rating_distribution :: "jsnum list option"
  review_count :: "jsnum option"

record UsageMetrics =
  total_requests :: "jsnum option"
  unique_clients :: "jsnum option"
  longevity_days :: "jsnum option"
  consistency_score :: "jsnum option"

datatype custom_value = CNumber jsnum | CString string | CBoolean bool

record IReputationDataComponents =
  performanceMetrics :: "PerformanceMetrics option"
  verificationDetails :: "VerificationDetails option"
  feedbackMetrics :: "FeedbackMetrics option"
  usageMetrics :: "UsageMetrics option"
  customMetrics :: "(string \<times> custom_value) list option"

text \<open>
  \<open>IReputationScore\<close>. The objects \<open>categories\<close> and \<open>confidence.factors\<close> are
  string-keyed records of numbers: association lists in insertion order, which is the
  order \<open>Object.entries\<close> enumerates.
\<close>

record Confidence =
  conf_level :: "jsnum option"
  factors :: "(string \<times> jsnum) list option"

record IReputationScore =
  serverId :: string
  overallScore :: "jsnum option"
  categories :: "(string \<times> jsnum) list option"
  confidence :: "Confidence option"
  lastUpdated :: string
  dataPoints :: "jsnum option"
  algorithm :: "string option"
  customFields :: "(string \<times> custom_value) list option"

section \<open>Confidence\<close>

record ConfidenceConfig =
  minReviews :: jsnum
  idealReviews :: jsnum
  minAge :: jsnum
  idealAge :: jsnum
  verificationImportance :: jsnum

text \<open>The constant table \<open>weights\<close> inside \<open>calculateConfidence\<close>.\<close>

definition confidence_weights :: "(string \<times> jsnum) list" where
  "confidence_weights =
     [(''sample_size'', Fin 0.3), (''consistency'', Fin 0.2), (''diversity'', Fin 0.1),
      (''recency'', Fin 0.2), (''verification_level'', Fin 0.2)]"

text \<open>
  The optional chains \<open>dataComponents.verificationDetails?.level\<close> and
  \<open>dataComponents.feedbackMetrics?.rating_count\<close>: \<open>undefined\<close> when the category or
  the field is absent.
\<close>

definition opt_level :: "IReputationDataComponents \<Rightarrow> string option" where
  "opt_level dataComponents =
     (case verificationDetails dataComponents of None \<Rightarrow> None | Some details \<Rightarrow> level details)"

definition opt_rating_count :: "IReputationDataComponents \<Rightarrow> jsnum option" where
  "opt_rating_count dataComponents =
     (case feedbackMetrics dataComponents of None \<Rightarrow> None | Some metrics \<Rightarrow> rating_count metrics)"

text \<open>
  \<open>dataComponents.verificationDetails?.level || "none"\<close>: \<open>undefined\<close> and the empty
  string are falsy.
\<close>

definition level_or_none :: "IReputationDataComponents \<Rightarrow> string" where
  "level_or_none dataComponents =
     (case opt_level dataComponents of
        None \<Rightarrow> ''none''
      | Some l \<Rightarrow> if l = [] then ''none'' else l)"

text \<open>\<open>dataComponents.feedbackMetrics?.rating_count || 0\<close>.\<close>

definition rating_count_or_0 :: "IReputationDataComponents \<Rightarrow> jsnum" where
  "rating_count_or_0 dataComponents = num_or (opt_rating_count dataComponents) (Fin 0)"

text \<open>
  \<open>calculateConfidence(dataComponents, config)\<close>. The \<open>forEach\<close> over
  \<open>Object.entries(factors)\<close> is a left fold carrying the pair
  \<open>(overallConfidence, weightSum)\<close>; \<open>weights[factor] || 0\<close> is the table lookup.
  The returned object \<open>{level, factors}\<close> is the pair of the rounded level and the
  factors.
\<close>

definition calculateConfidence ::
  "IReputationDataComponents \<Rightarrow> ConfidenceConfig \<Rightarrow> jsnum \<times> (string \<times> jsnum) list" where
  "calculateConfidence dataComponents config =
     (let reviewCount = rating_count_or_0 dataComponents;
          sample_size = js_min (Fin 100) (js_mul (js_div reviewCount (idealReviews config)) (Fin 100));
          consistency = Fin 70;
          diversity = Fin 60;
          recency = Fin 80;
          verificationLevel = level_or_none dataComponents;
          verification_level =
            (if verificationLevel = ''gold'' then Fin 100
             else if verificationLevel = ''silver'' then Fin 75
             else if verificationLevel = ''bronze'' then Fin 50
             else Fin 0);
          factors =
            [(''sample_size'', sample_size), (''consistency'', consistency),
             (''diversity'', diversity), (''recency'', recency),
             (''verification_level'', verification_level)];
          (overallConfidence, weightSum) =
            foldl (\<lambda>(overallConfidence, weightSum) (factor, value).
                     let weight = num_or (map_of confidence_weights factor) (Fin 0)
                     in (js_add overallConfidence (js_mul value weight), js_add weightSum weight))
                  (Fin 0, Fin 0) factors;
          lvl = (if js_gt weightSum (Fin 0) then js_div overallConfidence weightSum else Fin 0)
      in (js_round lvl, factors))"

section \<open>The weighted algorithm\<close>

text \<open>The four helper functions at the end of the algorithm module.\<close>

definition calculatePerformanceScore :: "IReputationDataComponents \<Rightarrow> jsnum" where
  "calculatePerformanceScore components =
     (case performanceMetrics components of
        None \<Rightarrow> Fin 50
      | Some metrics \<Rightarrow>
          let uptimeScore = num_or (uptime_percentage metrics) (Fin 0);
              responseTimeScore =
                (if truthy (avg_response_time_ms metrics)
                 then js_max (Fin 0)
                        (js_sub (Fin 100) (js_div (the (avg_response_time_ms metrics)) (Fin 10)))
                 else Fin 50);
              errorRateScore =
                (case error_rate metrics of
                   Some e \<Rightarrow> js_max (Fin 0) (js_sub (Fin 100) (js_mul e (Fin 100)))
                 | None \<Rightarrow> Fin 50)
          in js_add (js_add (js_mul uptimeScore (Fin 0.5)) (js_mul responseTimeScore (Fin 0.3)))
                    (js_mul errorRateScore (Fin 0.2)))"

definition calculateVerificationScore :: "IReputationDataComponents \<Rightarrow> jsnum" where
  "calculateVerificationScore components =
     (case verificationDetails components of
        None \<Rightarrow> Fin 0
      | Some details \<Rightarrow>
          if level details = Some ''gold'' then Fin 100
          else if level details = Some ''silver'' then Fin 75
          else if level details = Some ''bronze'' then Fin 50
          else Fin 0)"

definition calculateFeedbackScore :: "IReputationDataComponents \<Rightarrow> jsnum" where
  "calculateFeedbackScore components =
     (case feedbackMetrics components of
        None \<Rightarrow> Fin 50
      | Some metrics \<Rightarrow>
          if \<not> truthy (average_rating metrics) then Fin 50
          else js_mul (js_div (js_sub (the (average_rating metrics)) (Fin 1)) (Fin 4)) (Fin 100))"

definition calculateUsageScore :: "IReputationDataComponents \<Rightarrow> jsnum" where
  "calculateUsageScore components =
     (case usageMetrics components of
        None \<Rightarrow> Fin 50
      | Some metrics \<Rightarrow>
          let requestScore =
                (if truthy (total_requests metrics)
                 then js_min (Fin 100)
                        (js_mul (js_div (the (total_requests metrics)) (Fin 1000)) (Fin 100))
                 else Fin 0);
              diversityScore =
                (if truthy (unique_clients metrics)
                 then js_min (Fin 100)
                        (js_mul (js_div (the (unique_clients metrics)) (Fin 100)) (Fin 100))
                 else Fin 0);
              longevityScore =
                (if truthy (longevity_days metrics)
                 then js_min (Fin 100)
                        (js_mul (js_div (the (longevity_days metrics)) (Fin 30)) (Fin 100))
                 else Fin 0)
          in js_add (js_add (js_mul requestScore (Fin 0.3)) (js_mul diversityScore (Fin 0.4)))
                    (js_mul longevityScore (Fin 0.3)))"

record Weights =
  performance :: jsnum
  verification :: jsnum
  feedback :: jsnum
  usage :: jsnum

record WeightedConfig =
  weights :: Weights
  timeDecayDays :: jsnum
  minimumReviews :: jsnum

text \<open>
  The closure \<open>calculateScore\<close> that \<open>createWeightedAlgorithm(config)\<close> builds. It is
  \<open>async\<close> without an \<open>await\<close>: its promise resolves with the value computed here.
  \<open>nowISO\<close> stands for \<open>new Date().toISOString()\<close>.
\<close>

definition weighted_calculateScore ::
  "WeightedConfig \<Rightarrow> string \<Rightarrow> string \<Rightarrow> IReputationDataComponents \<Rightarrow> IReputationScore" where
  "weighted_calculateScore config nowISO sid components =
     (let performanceScore = calculatePerformanceScore components;
          verificationScore = calculateVerificationScore components;
          feedbackScore = calculateFeedbackScore components;
          usageScore = calculateUsageScore components;
          weightedScore =
            js_add (js_add (js_add (js_mul performanceScore (performance (weights config)))
                                   (js_mul verificationScore (verification (weights config))))
                           (js_mul feedbackScore (feedback (weights config))))
                   (js_mul usageScore (usage (weights config)));
          normalizedScore = js_min (Fin 100) (js_max (Fin 0) weightedScore);
          (lvl, fs) =
            calculateConfidence components
              \<lparr>minReviews = minimumReviews config,
               idealReviews = js_mul (minimumReviews config) (Fin 5),
               minAge = Fin 7, idealAge = Fin 30, verificationImportance = Fin 0.2\<rparr>
      in \<lparr>serverId = sid,
          overallScore = Some (js_round normalizedScore),
          categories =
            Some [(''performance'', js_round performanceScore),
                  (''verification'', js_round verificationScore),
                  (''feedback'', js_round feedbackScore),
                  (''usage'', js_round usageScore)],
          confidence = Some \<lparr>conf_level = Some lvl, factors = Some fs\<rparr>,
          lastUpdated = nowISO,
          dataPoints = Some (rating_count_or_0 components),
          algorithm = Some ''weighted-score-v1'',
          customFields = None\<rparr>)"

record TimeDecay =
  halfLifeDays :: jsnum
  maxAgeDays :: jsnum

record Thresholds =
  minimumDataPoints :: jsnum
  outlierDetection :: jsnum

record AlgorithmConfig =
  alg_weights :: "Weights option"
  timeDecay :: "TimeDecay option"
  thresholds :: "Thresholds option"

record IReputationAlgorithm =
  alg_id :: string
  alg_name :: string
  description :: string
  version :: string
  calculateScore :: "string \<Rightarrow> string \<Rightarrow> IReputationDataComponents \<Rightarrow> IReputationScore"
  config :: "AlgorithmConfig option"

definition createWeightedAlgorithm :: "WeightedConfig \<Rightarrow> IReputationAlgorithm" where
  "createWeightedAlgorithm cfg =
     \<lparr>alg_id = ''weighted-score-v1'',
      alg_name = ''Weighted Score Algorithm'',
      description = ''Calculates reputation based on weighted components with time decay'',
      version = ''1.0'',
      calculateScore = weighted_calculateScore cfg,
      config =
        Some \<lparr>alg_weights = Some (weights cfg),
              timeDecay = Some \<lparr>halfLifeDays = timeDecayDays cfg,
                                 maxAgeDays = js_mul (timeDecayDays cfg) (Fin 4)\<rparr>,
              thresholds = Some \<lparr>minimumDataPoints = minimumReviews cfg,
                                  outlierDetection = Fin 2.5\<rparr>\<rparr>\<rparr>"

section \<open>In-memory storage\<close>

text \<open>
  \<open>LocalReputationStorage\<close> holds two private maps; each method takes the state and the
  mutating one returns the new state. \<open>Array.prototype.slice(start)\<close> with one
  argument: a negative start counts from the end, never before index 0; a start of 0
  (which is what \<open>-0\<close> is) keeps the whole array.
\<close>

record LocalReputationStorage =
  storage :: "string \<rightharpoonup> IReputationScore"
  history :: "string \<rightharpoonup> IReputationScore list"

definition new_LocalReputationStorage :: LocalReputationStorage where
  "new_LocalReputationStorage = \<lparr>storage = Map.empty, history = Map.empty\<rparr>"

definition js_slice :: "'a list \<Rightarrow> int \<Rightarrow> 'a list" where
  "js_slice xs start =
     (let len = int (length xs);
          k = (if start < 0 then max (len + start) 0 else min start len)
      in drop (nat k) xs)"

definition saveReputationScore ::
  "LocalReputationStorage \<Rightarrow> IReputationScore \<Rightarrow> LocalReputationStorage" where
  "saveReputationScore st score =
     (let serverHistory = (case history st (serverId score) of None \<Rightarrow> [] | Some h \<Rightarrow> h)
      in st\<lparr>storage := (storage st)(serverId score \<mapsto> score),
            history := (history st)(serverId score \<mapsto> serverHistory @ [score])\<rparr>)"

definition getReputationScore ::
  "LocalReputationStorage \<Rightarrow> string \<Rightarrow> IReputationScore option" where
  "getReputationScore st sid = storage st sid"

text \<open>The limit is an integral number; an absent one defaults to 10.\<close>

definition getReputationHistory ::
  "LocalReputationStorage \<Rightarrow> string \<Rightarrow> int option \<Rightarrow> IReputationScore list" where
  "getReputationHistory st sid limit_opt =
     (let limit = (case limit_opt of None \<Rightarrow> 10 | Some l \<Rightarrow> l);
          h = (case history st sid of None \<Rightarrow> [] | Some h \<Rightarrow> h)
      in js_slice h (- limit))"

text \<open>Saving a sequence of scores, one call after the other.\<close>

definition save_all ::
  "LocalReputationStorage \<Rightarrow> IReputationScore list \<Rightarrow> LocalReputationStorage" where
  "save_all st scores = foldl saveReputationScore st scores"

section \<open>Notions the properties are stated with\<close>

text \<open>The bundle \<open>{}\<close>: every category absent.\<close>

definition no_components :: IReputationDataComponents where
  "no_components =
     \<lparr>performanceMetrics = None, verificationDetails = None, feedbackMetrics = None,
      usageMetrics = None, customMetrics = None\<rparr>"

text \<open>\<open>score.categories?.[k]\<close> and \<open>score.confidence?.level\<close>.\<close>

definition category :: "IReputationScore \<Rightarrow> string \<Rightarrow> jsnum option" where
  "category score k = (case categories score of None \<Rightarrow> None | Some cs \<Rightarrow> map_of cs k)"

definition confidence_level :: "IReputationScore \<Rightarrow> jsnum option" where
  "confidence_level score = (case confidence score of None \<Rightarrow> None | Some c \<Rightarrow> conf_level c)"

text \<open>A present number in the closed interval from 0 to 100.\<close>

fun in_0_100 :: "jsnum option \<Rightarrow> bool" where
  "in_0_100 (Some (Fin r)) = (0 \<le> r \<and> r \<le> 100)"
| "in_0_100 a = False"

text \<open>
  An optional field that is absent or a finite number between \<open>lo\<close> and \<open>hi\<close>; absent or
  a finite number from \<open>lo\<close> up; absent or any finite number.
\<close>

fun absent_or_between :: "real \<Rightarrow> real \<Rightarrow> jsnum option \<Rightarrow> bool" where
  "absent_or_between lo hi None = True"
| "absent_or_between lo hi (Some (Fin r)) = (lo \<le> r \<and> r \<le> hi)"
| "absent_or_between lo hi (Some a) = False"

fun absent_or_at_least :: "real \<Rightarrow> jsnum option \<Rightarrow> bool" where
  "absent_or_at_least lo None = True"
| "absent_or_at_least lo (Some (Fin r)) = (lo \<le> r)"
| "absent_or_at_least lo (Some a) = False"

fun absent_or_finite :: "jsnum option \<Rightarrow> bool" where
  "absent_or_finite None = True"
| "absent_or_finite (Some (Fin r)) = True"
| "absent_or_finite (Some a) = False"

text \<open>
  The fields the four category functions read are finite numbers where present
  (\<open>finite_metrics\<close>), and lie in the ranges the data model documents for them
  (\<open>documented_ranges\<close>): uptime 0 to 100, response time from 0, error rate 0 to 1,
  average rating 1 to 5, the usage counts from 0.
\<close>

definition finite_metrics :: "IReputationDataComponents \<Rightarrow> bool" where
  "finite_metrics c =
     ((case performanceMetrics c of
         None \<Rightarrow> True
       | Some m \<Rightarrow> absent_or_finite (uptime_percentage m) \<and>
                  absent_or_finite (avg_response_time_ms m) \<and>
                  absent_or_finite (error_rate m)) \<and>
      (case feedbackMetrics c of
         None \<Rightarrow> True
       | Some m \<Rightarrow> absent_or_finite (average_rating m)) \<and>
      (case usageMetrics c of
         None \<Rightarrow> True
       | Some m \<Rightarrow> absent_or_finite (total_requests m) \<and>
                  absent_or_finite (unique_clients m) \<and>
                  absent_or_finite (longevity_days m)))"

definition documented_ranges :: "IReputationDataComponents \<Rightarrow> bool" where
  "documented_ranges c =
     ((case performanceMetrics c of
         None \<Rightarrow> True
       | Some m \<Rightarrow> absent_or_between 0 100 (uptime_percentage m) \<and>
                  absent_or_at_least 0 (avg_response_time_ms m) \<and>
                  absent_or_between 0 1 (error_rate m)) \<and>
      (case feedbackMetrics c of
         None \<Rightarrow> True
       | Some m \<Rightarrow> absent_or_between 1 5 (average_rating m)) \<and>
      (case usageMetrics c of
         None \<Rightarrow> True
       | Some m \<Rightarrow> absent_or_at_least 0 (total_requests m) \<and>
                  absent_or_at_least 0 (unique_clients m) \<and>
                  absent_or_at_least 0 (longevity_days m)))"

definition finite_weights :: "Weights \<Rightarrow> bool" where
  "finite_weights w =
     (absent_or_finite (Some (performance w)) \<and> absent_or_finite (Some (verification w)) \<and>
      absent_or_finite (Some (feedback w)) \<and> absent_or_finite (Some (usage w)))"

text \<open>
  Population mean and population standard deviation of a list of reals (division by the
  number of values), as the specification of the outlier detector words them.
\<close>

definition pop_mean :: "real list \<Rightarrow> real" where
  "pop_mean vs = sum_list vs / real (length vs)"

definition pop_stddev :: "real list \<Rightarrow> real" where
  "pop_stddev vs = sqrt (sum_list (map (\<lambda>v. (v - pop_mean vs)\<^sup>2) vs) / real (length vs))"

text \<open>
  The factors of the confidence estimate as the specification words them: the sample
  size from an optional finite rating count and the ideal number of reviews, and the
  step function of the verification level.
\<close>

definition sample_size_of :: "real option \<Rightarrow> real \<Rightarrow> real" where
  "sample_size_of rc ideal = (case rc of None \<Rightarrow> 0 | Some c \<Rightarrow> min 100 (c / ideal * 100))"

definition verification_factor_of :: "string option \<Rightarrow> real" where
  "verification_factor_of lv =
     (if lv = Some ''gold'' then 100 else if lv = Some ''silver'' then 75
      else if lv = Some ''bronze'' then 50 else 0)"

text \<open>The history array of a server, \<open>this.history.get(serverId) || []\<close>.\<close>

definition history_of :: "LocalReputationStorage \<Rightarrow> string \<Rightarrow> IReputationScore list" where
  "history_of st sid = (case history st sid of None \<Rightarrow> [] | Some h \<Rightarrow> h)"

text \<open>A time value in the range of \<open>Date\<close>, and the exact age of a timestamp in days.\<close>

definition valid_time :: "int \<Rightarrow> bool" where
  "valid_time t = (\<bar>t\<bar> \<le> 8640000000000000)"

definition age_in_days :: "int \<Rightarrow> int \<Rightarrow> real" where
  "age_in_days now t = real_of_int (now - t) / 86400000"

text \<open>
  A real at least \<open>10\<^sup>-\<^sup>9\<close> away from every rounding tie \<open>k + 1/2\<close>: rounding it to
  the nearest integer gives the same integer for every number within \<open>10\<^sup>-\<^sup>9\<close> of it.
\<close>

definition off_tie :: "real \<Rightarrow> bool" where
  "off_tie x = (1 / 10 ^ 9 \<le> \<bar>x - of_int \<lfloor>x\<rfloor> - 1 / 2\<bar>)"

text \<open>
  Weights, and the fields the four category functions read, that are finite numbers of
  magnitude at most \<open>10\<^sup>1\<^sup>0\<^sup>0\<close>: no product or sum of the weighted score then leaves the
  range of binary64.
\<close>

definition bounded_weights :: "Weights \<Rightarrow> bool" where
  "bounded_weights w =
     (absent_or_between (- (10 ^ 100)) (10 ^ 100) (Some (performance w)) \<and>
      absent_or_between (- (10 ^ 100)) (10 ^ 100) (Some (verification w)) \<and>
      absent_or_between (- (10 ^ 100)) (10 ^ 100) (Some (feedback w)) \<and>
      absent_or_between (- (10 ^ 100)) (10 ^ 100) (Some (usage w)))"

definition bounded_metrics :: "IReputationDataComponents \<Rightarrow> bool" where
  "bounded_metrics c =
     ((case performanceMetrics c of
         None \<Rightarrow> True
       | Some m \<Rightarrow> absent_or_between (- (10 ^ 100)) (10 ^ 100) (uptime_percentage m) \<and>
                  absent_or_between (- (10 ^ 100)) (10 ^ 100) (avg_response_time_ms m) \<and>
                  absent_or_between (- (10 ^ 100)) (10 ^ 100) (error_rate m)) \<and>
      (case feedbackMetrics c of
         None \<Rightarrow> True
       | Some m \<Rightarrow> absent_or_between (- (10 ^ 100)) (10 ^ 100) (average_rating m)) \<and>
      (case usageMetrics c of
         None \<Rightarrow> True
       | Some m \<Rightarrow> absent_or_between (- (10 ^ 100)) (10 ^ 100) (total_requests m) \<and>
                  absent_or_between (- (10 ^ 100)) (10 ^ 100) (unique_clients m) \<and>
                  absent_or_between (- (10 ^ 100)) (10 ^ 100) (longevity_days m)))"

section \<open>Fixtures of the test suites\<close>

text \<open>
  The configuration and the bundle of \<^verbatim>\<open>algorithm.test.ts\<close> (weights 0.4, 0.3, 0.2, 0.1,
  half-life 30 days, 5 minimum reviews), the confidence fixture of the same file, and the
  scores of \<^verbatim>\<open>storage.test.ts\<close>.
\<close>

definition test_config :: WeightedConfig where
  "test_config =
     \<lparr>weights = \<lparr>performance = Fin 0.4, verification = Fin 0.3, feedback = Fin 0.2,
                  usage = Fin 0.1\<rparr>,
      timeDecayDays = Fin 30, minimumReviews = Fin 5\<rparr>"

definition test_bundle :: IReputationDataComponents where
  "test_bundle =
     \<lparr>performanceMetrics =
        Some \<lparr>uptime_percentage = Some (Fin 99.9), avg_response_time_ms = Some (Fin 150),
              error_rate = Some (Fin 0.01), successful_transactions = None\<rparr>,
      verificationDetails =
        Some \<lparr>level = Some ''gold'', verified_at = Some ''2024-01-01T00:00:00.000Z'',
              methods = Some [''dns'']\<rparr>,
      feedbackMetrics =
        Some \<lparr>average_rating = Some (Fin 4.8), rating_count = Some (Fin 50),
              rating_distribution = None, review_count = None\<rparr>,
      usageMetrics =
        Some \<lparr>total_requests = Some (Fin 10000), unique_clients = Some (Fin 500),
              longevity_days = Some (Fin 90), consistency_score = None\<rparr>,
      customMetrics = None\<rparr>"

definition test_confidence_config :: ConfidenceConfig where
  "test_confidence_config =
     \<lparr>minReviews = Fin 5, idealReviews = Fin 25, minAge = Fin 7, idealAge = Fin 30,
      verificationImportance = Fin 0.2\<rparr>"

definition test_confidence_bundle :: IReputationDataComponents where
  "test_confidence_bundle =
     \<lparr>performanceMetrics = None,
      verificationDetails = Some \<lparr>level = Some ''silver'', verified_at = None, methods = None\<rparr>,
      feedbackMetrics =
        Some \<lparr>average_rating = None, rating_count = Some (Fin 20),
              rating_distribution = None, review_count = None\<rparr>,
      usageMetrics = None, customMetrics = None\<rparr>"

definition test_score :: "real \<Rightarrow> IReputationScore" where
  "test_score v =
     \<lparr>serverId = ''test-server'', overallScore = Some (Fin v), categories = None,
      confidence = None, lastUpdated = ''2024-01-01T00:00:00.000Z'', dataPoints = None,
      algorithm = Some ''test-algorithm'', customFields = None\<rparr>"

text \<open>A bundle outside the documented ranges: an uptime of 200 and an average rating of 10.\<close>

definition out_of_range_bundle :: IReputationDataComponents where
  "out_of_range_bundle =
     \<lparr>performanceMetrics =
        Some \<lparr>uptime_percentage = Some (Fin 200), avg_response_time_ms = None,
              error_rate = None, successful_transactions = None\<rparr>,
      verificationDetails = None,
      feedbackMetrics =
        Some \<lparr>average_rating = Some (Fin 10), rating_count = None,
              rating_distribution = None, review_count = None\<rparr>,
      usageMetrics = None, customMetrics = None\<rparr>"

text \<open>A bundle whose rating count is negative.\<close>

definition negative_count_bundle :: IReputationDataComponents where
  "negative_count_bundle =
     \<lparr>performanceMetrics = None, verificationDetails = None,
      feedbackMetrics =
        Some \<lparr>average_rating = None, rating_count = Some (Fin (- 25)),
              rating_distribution = None, review_count = None\<rparr>,
      usageMetrics = None, customMetrics = None\<rparr>"

section \<open>Arithmetic of the number model\<close>

lemma js_sub_Fin [simp]: "js_sub (Fin x) (Fin y) = Fin (x - y)"
  by (simp add: js_sub_def)

section \<open>Time decay and normalisation\<close>

lemma half_powr_strict_antimono:
  fixes x y :: real
  assumes "x < y"
  shows "0.5 powr y < 0.5 powr x"
  using assms by (simp add: powr_less_cancel_iff powr_def)

lemma half_powr_as_two: "(0.5::real) powr x = 2 powr (- x)"
  by (simp add: powr_minus powr_divide inverse_eq_divide)

lemma two_powr_bounds:
  "(2::real) powr 1024 = 2 ^ 1024" "(2::real) powr (- 1075) = 1 / 2 ^ 1075"
proof -
  show "(2::real) powr 1024 = 2 ^ 1024"
    by (rule powr_numeral) simp
  have "(2::real) powr 1075 = 2 ^ 1075"
    by (rule powr_numeral) simp
  then show "(2::real) powr (- 1075) = 1 / 2 ^ 1075"
    by (simp only: powr_minus inverse_eq_divide)
qed

lemma pow_result_in_range:
  assumes "1 / 2 ^ 1075 < x" and "x < 2 ^ 1024"
  shows "pow_result x = Fin x"
proof -
  have "(0::real) < 1 / 2 ^ 1075" by simp
  from this assms(1) have "0 < x" by (rule less_trans)
  with assms show ?thesis
    unfolding pow_result_def by (simp add: not_le)
qed

lemma pow_result_underflow:
  assumes "0 \<le> x" and "x \<le> 1 / 2 ^ 1075"
  shows "pow_result x = Fin 0"
proof -
  have "(1::real) / 2 ^ 1075 < 2 ^ 1024" by simp
  with assms(2) have "x < 2 ^ 1024" by (rule le_less_trans)
  with assms show ?thesis
    unfolding pow_result_def by (simp add: not_le)
qed

lemma pow_half_in_range:
  assumes "- 1000 \<le> x" and "x \<le> 1074"
  shows "js_pow (Fin 0.5) (Fin x) = Fin (0.5 powr x)"
proof (cases "x = 0")
  case True
  then show ?thesis by simp
next
  case False
  have "(2::real) powr (- x) \<le> 2 powr 1000"
    using assms(1) by (subst powr_le_cancel_iff) simp_all
  also have "\<dots> < 2 powr 1024"
    by (subst powr_less_cancel_iff) simp_all
  finally have hi: "(2::real) powr (- x) < 2 ^ 1024"
    by (simp only: two_powr_bounds)
  have "(2::real) powr (- 1075) < 2 powr (- x)"
    using assms(2) by (subst powr_less_cancel_iff) simp_all
  then have lo: "1 / 2 ^ 1075 < (2::real) powr (- x)"
    by (simp only: two_powr_bounds)
  from lo hi have "pow_result (2 powr (- x)) = Fin (2 powr (- x))"
    by (rule pow_result_in_range)
  then have "pow_result (0.5 powr x) = Fin (0.5 powr x)"
    by (simp only: half_powr_as_two)
  with False show ?thesis by simp
qed

lemma pow_half_underflow:
  assumes "1075 \<le> x"
  shows "js_pow (Fin 0.5) (Fin x) = Fin 0"
proof -
  have "(2::real) powr (- x) \<le> 2 powr (- 1075)"
    using assms by (subst powr_le_cancel_iff) simp_all
  then have "(2::real) powr (- x) \<le> 1 / 2 ^ 1075"
    by (simp only: two_powr_bounds)
  moreover have "0 \<le> (2::real) powr (- x)" by simp
  ultimately have "pow_result (2 powr (- x)) = Fin 0"
    by (intro pow_result_underflow)
  then have "pow_result (0.5 powr x) = Fin 0"
    by (simp only: half_powr_as_two)
  with assms show ?thesis by simp
qed

lemma applyTimeDecay_in_range:
  assumes "h \<noteq> 0" and "- 1000 \<le> age_in_days now t / h" and "age_in_days now t / h \<le> 1074"
  shows "applyTimeDecay now (Fin v) (Some t) (Fin h) = Fin (v * 0.5 powr (age_in_days now t / h))"
  using assms pow_half_in_range [of "age_in_days now t / h"]
  by (simp add: applyTimeDecay_def time_value_def age_in_days_def Let_def)

lemma applyTimeDecay_underflow:
  assumes "h \<noteq> 0" and "1075 \<le> age_in_days now t / h"
  shows "applyTimeDecay now (Fin v) (Some t) (Fin h) = Fin 0"
  using assms pow_half_underflow [of "age_in_days now t / h"]
  by (simp add: applyTimeDecay_def time_value_def age_in_days_def Let_def)

text \<open>
  C5, as stated, fails on the strict decrease: \<open>0.5 ^ x\<close> underflows to 0 once \<open>x\<close>
  passes 1075, so with a half-life of one day a value of 100 decays to 0 both at an age
  of 1100 days and at an age of 1500 days.
\<close>

theorem decay_not_strict_after_underflow:
  "applyTimeDecay 1700000000000 (Fin 100) (Some (1700000000000 - 1100 * 86400000)) (Fin 1) = Fin 0 \<and>
   applyTimeDecay 1700000000000 (Fin 100) (Some (1700000000000 - 1500 * 86400000)) (Fin 1) = Fin 0 \<and>
   \<not> js_gt (applyTimeDecay 1700000000000 (Fin 100) (Some (1700000000000 - 1100 * 86400000)) (Fin 1))
            (applyTimeDecay 1700000000000 (Fin 100) (Some (1700000000000 - 1500 * 86400000)) (Fin 1))"
proof -
  have a: "applyTimeDecay 1700000000000 (Fin 100) (Some (1700000000000 - 1100 * 86400000)) (Fin 1) = Fin 0"
    by (rule applyTimeDecay_underflow) (simp_all add: age_in_days_def)
  have b: "applyTimeDecay 1700000000000 (Fin 100) (Some (1700000000000 - 1500 * 86400000)) (Fin 1) = Fin 0"
    by (rule applyTimeDecay_underflow) (simp_all add: age_in_days_def)
  show ?thesis unfolding a b by simp
qed

text \<open>
  C5, amended. For a positive half-life \<open>h\<close> and valid time values: a value recorded
  exactly \<open>n\<close> half-lives before now, with \<open>n\<close> at most 1000, decays to \<open>v * 0.5 ^ n\<close>
  (an equality in exact arithmetic, within floating tolerance in binary64); and for a
  value between \<open>10\<^sup>-\<^sup>1\<^sup>0\<^sup>0\<close> and \<open>10\<^sup>1\<^sup>0\<^sup>0\<close> the decayed value of the older of two
  timestamps is strictly smaller, provided neither lies in the future, the older one is
  at most 600 half-lives old and the two ages differ by at least a millionth of a
  half-life. The bounds keep the results clear of underflow and the two results further
  apart than binary64 rounding can move them.
\<close>

theorem applyTimeDecay_half_lives_and_decrease:
  assumes "0 < h" and "valid_time now"
  shows "(valid_time t \<longrightarrow> n \<le> 1000 \<longrightarrow> age_in_days now t = real n * h \<longrightarrow>
            applyTimeDecay now (Fin v) (Some t) (Fin h) = Fin (v * 0.5 ^ n)) \<and>
         (valid_time t1 \<longrightarrow> valid_time t2 \<longrightarrow> 1 / 10 ^ 100 \<le> v \<longrightarrow> v \<le> 10 ^ 100 \<longrightarrow>
            0 \<le> age_in_days now t1 \<longrightarrow> age_in_days now t1 + h / 10 ^ 6 \<le> age_in_days now t2 \<longrightarrow>
            age_in_days now t2 \<le> 600 * h \<longrightarrow>
            js_gt (applyTimeDecay now (Fin v) (Some t1) (Fin h))
                  (applyTimeDecay now (Fin v) (Some t2) (Fin h)))"
proof (intro conjI impI)
  assume n: "n \<le> 1000" and age: "age_in_days now t = real n * h"
  from assms(1) age have x: "age_in_days now t / h = real n" by simp
  have "applyTimeDecay now (Fin v) (Some t) (Fin h) = Fin (v * 0.5 powr (age_in_days now t / h))"
    using assms(1) n by (intro applyTimeDecay_in_range) (simp_all add: x)
  then show "applyTimeDecay now (Fin v) (Some t) (Fin h) = Fin (v * 0.5 ^ n)"
    unfolding x by (simp add: powr_realpow)
next
  assume v: "1 / 10 ^ 100 \<le> v" and a1: "0 \<le> age_in_days now t1"
    and gap: "age_in_days now t1 + h / 10 ^ 6 \<le> age_in_days now t2"
    and a2: "age_in_days now t2 \<le> 600 * h"
  let ?x1 = "age_in_days now t1 / h" and ?x2 = "age_in_days now t2 / h"
  from assms(1) a1 have x1: "0 \<le> ?x1" by simp
  from assms(1) a2 have x2: "?x2 \<le> 600" by (simp add: pos_divide_le_eq)
  from assms(1) gap have "age_in_days now t1 < age_in_days now t2"
    by (smt (verit) divide_pos_pos zero_less_power)
  with assms(1) have lt: "?x1 < ?x2" by (simp add: divide_strict_right_mono)
  have d1: "applyTimeDecay now (Fin v) (Some t1) (Fin h) = Fin (v * 0.5 powr ?x1)"
    using assms(1) x1 x2 lt by (intro applyTimeDecay_in_range) simp_all
  have d2: "applyTimeDecay now (Fin v) (Some t2) (Fin h) = Fin (v * 0.5 powr ?x2)"
    using assms(1) x1 x2 lt by (intro applyTimeDecay_in_range) simp_all
  from v have "0 < v"
    by (smt (verit) divide_pos_pos zero_less_power)
  moreover from lt have "(0.5::real) powr ?x2 < 0.5 powr ?x1"
    by (rule half_powr_strict_antimono)
  ultimately have "v * 0.5 powr ?x2 < v * 0.5 powr ?x1" by simp
  then show "js_gt (applyTimeDecay now (Fin v) (Some t1) (Fin h))
                  (applyTimeDecay now (Fin v) (Some t2) (Fin h))"
    unfolding d1 d2 by simp
qed

theorem applyTimeDecay_half_lives_and_decrease_witness:
  "(0::real) < 30 \<and> valid_time 1700000000000 \<and>
   valid_time (1700000000000 - 3 * 30 * 86400000) \<and> (3::nat) \<le> 1000 \<and>
   age_in_days 1700000000000 (1700000000000 - 3 * 30 * 86400000) = real (3::nat) * 30 \<and>
   valid_time (1700000000000 - 86400000) \<and> valid_time (1700000000000 - 2 * 86400000) \<and>
   (1::real) / 10 ^ 100 \<le> 100 \<and> (100::real) \<le> 10 ^ 100 \<and>
   0 \<le> age_in_days 1700000000000 (1700000000000 - 86400000) \<and>
   age_in_days 1700000000000 (1700000000000 - 86400000) + 30 / 10 ^ 6
     \<le> age_in_days 1700000000000 (1700000000000 - 2 * 86400000) \<and>
   age_in_days 1700000000000 (1700000000000 - 2 * 86400000) \<le> 600 * 30 \<and>
   applyTimeDecay 1700000000000 (Fin 100) (Some (1700000000000 - 3 * 30 * 86400000)) (Fin 30)
     = Fin 12.5 \<and>
   js_gt (applyTimeDecay 1700000000000 (Fin 100) (Some (1700000000000 - 86400000)) (Fin 30))
         (applyTimeDecay 1700000000000 (Fin 100) (Some (1700000000000 - 2 * 86400000)) (Fin 30))"
  using applyTimeDecay_half_lives_and_decrease
    [of 30 1700000000000 "1700000000000 - 3 * 30 * 86400000" 3 100
        "1700000000000 - 86400000" "1700000000000 - 2 * 86400000"]
  by (simp add: valid_time_def age_in_days_def power3_eq_cube)

text \<open>
  C3, as stated, fails: with a half-life of 0 the call is not rejected, it returns 0 for
  a value recorded in the past; and \<open>normalizeScore\<close> with \<open>min = max\<close> divides 0 by 0
  and returns \<open>NaN\<close>.
\<close>

theorem degenerate_config_not_rejected:
  "applyTimeDecay 1700000000000 (Fin 100) (Some 1699000000000) (Fin 0) = Fin 0 \<and>
   normalizeScore (Fin 7) (Fin 5) (Fin 5) = NaN"
  by (simp add: applyTimeDecay_def time_value_def normalizeScore_def Let_def inf_of_sign_def)

text \<open>
  C3, amended. Neither function validates its arguments and neither raises. For valid
  time values, \<open>applyTimeDecay\<close> with a half-life of \<open>+0\<close> evaluates the division by
  zero: the result is 0 for a timestamp in the past, \<open>NaN\<close> for the present instant and
  for an invalid date, and the infinity with the sign of the value (\<open>NaN\<close> for the value
  0) for a timestamp in the future. With a negative half-life it evaluates the formula of
  a positive one, \<open>v * 0.5 ^ (age / h)\<close>, which then grows with age (stated for a value
  of magnitude at most \<open>10\<^sup>6\<close> and an age of at most 1000 half-lives, where the result
  stays finite in binary64). \<open>normalizeScore\<close> with \<open>min = max\<close> returns \<open>NaN\<close> for every
  finite value.
\<close>

theorem degenerate_config_results:
  assumes "valid_time now" and "valid_time t"
  shows "applyTimeDecay now (Fin v) (Some t) (Fin 0) =
     (if t < now then Fin 0 else if t = now then NaN else inf_of_sign v) \<and>
   applyTimeDecay now (Fin v) None (Fin 0) = NaN \<and>
   (h < 0 \<longrightarrow> \<bar>v\<bar> \<le> 10 ^ 6 \<longrightarrow> \<bar>age_in_days now t / h\<bar> \<le> 1000 \<longrightarrow>
      applyTimeDecay now (Fin v) (Some t) (Fin h) =
        Fin (v * 0.5 powr (age_in_days now t / h))) \<and>
   normalizeScore (Fin x) (Fin m) (Fin m) = NaN"
proof (intro conjI impI)
  show "applyTimeDecay now (Fin v) (Some t) (Fin 0) =
     (if t < now then Fin 0 else if t = now then NaN else inf_of_sign v)"
    by (auto simp add: applyTimeDecay_def time_value_def Let_def inf_of_sign_def sgn_real_def)
  show "applyTimeDecay now (Fin v) None (Fin 0) = NaN"
    by (simp add: applyTimeDecay_def time_value_def Let_def js_sub_def)
  show "normalizeScore (Fin x) (Fin m) (Fin m) = NaN"
    by (simp add: normalizeScore_def Let_def inf_of_sign_def)
next
  assume h: "h < 0" and x: "\<bar>age_in_days now t / h\<bar> \<le> 1000"
  from x have "- 1000 \<le> age_in_days now t / h" and "age_in_days now t / h \<le> 1074"
    by linarith+
  with h show "applyTimeDecay now (Fin v) (Some t) (Fin h) =
        Fin (v * 0.5 powr (age_in_days now t / h))"
    by (intro applyTimeDecay_in_range) simp_all
qed

theorem degenerate_config_results_witness:
  "valid_time 1700000000000 \<and> valid_time (1700000000000 - 30 * 86400000) \<and>
   (- 30 :: real) < 0 \<and> \<bar>100 :: real\<bar> \<le> 10 ^ 6 \<and>
   \<bar>age_in_days 1700000000000 (1700000000000 - 30 * 86400000) / (- 30)\<bar> \<le> 1000 \<and>
   applyTimeDecay 1700000000000 (Fin 100) (Some (1700000000000 - 30 * 86400000)) (Fin 0) = Fin 0 \<and>
   applyTimeDecay 1700000000000 (Fin 100) None (Fin 0) = NaN \<and>
   applyTimeDecay 1700000000000 (Fin 100) (Some (1700000000000 - 30 * 86400000)) (Fin (- 30))
     = Fin (100 * 0.5 powr (- 1)) \<and>
   normalizeScore (Fin 7) (Fin 5) (Fin 5) = NaN"
  using degenerate_config_results
    [of 1700000000000 "1700000000000 - 30 * 86400000" 100 "- 30" 7 5]
  by (simp add: valid_time_def age_in_days_def)

section \<open>Confidence estimate\<close>

lemma rating_count_or_0_finite:
  "opt_rating_count comps = map_option Fin rc \<Longrightarrow>
   rating_count_or_0 comps = Fin (case rc of None \<Rightarrow> 0 | Some c \<Rightarrow> c)"
  by (cases rc) (auto simp add: rating_count_or_0_def)

lemma verification_factor_code:
  "(if level_or_none comps = ''gold'' then Fin 100
    else if level_or_none comps = ''silver'' then Fin 75
    else if level_or_none comps = ''bronze'' then Fin 50 else Fin 0)
   = Fin (verification_factor_of (opt_level comps))"
  by (auto simp add: level_or_none_def verification_factor_of_def split: option.splits)

lemma calculateConfidence_finite:
  assumes "idealReviews cfg = Fin i" and "i \<noteq> 0"
    and "opt_rating_count comps = map_option Fin rc"
  shows "calculateConfidence comps cfg =
     (Fin (of_int (round (0.3 * sample_size_of rc i + 0.2 * 70 + 0.1 * 60 + 0.2 * 80 +
                           0.2 * verification_factor_of (opt_level comps)))),
      [(''sample_size'', Fin (sample_size_of rc i)), (''consistency'', Fin 70),
       (''diversity'', Fin 60), (''recency'', Fin 80),
       (''verification_level'', Fin (verification_factor_of (opt_level comps)))])"
proof -
  have "rating_count_or_0 comps = Fin (case rc of None \<Rightarrow> 0 | Some c \<Rightarrow> c)"
    using assms(3) by (rule rating_count_or_0_finite)
  then have s:
    "js_min (Fin 100) (js_mul (js_div (rating_count_or_0 comps) (idealReviews cfg)) (Fin 100))
       = Fin (sample_size_of rc i)"
    using assms(1,2) by (cases rc) (simp_all add: sample_size_of_def)
  show ?thesis
    unfolding calculateConfidence_def Let_def s verification_factor_code
    by (simp add: confidence_weights_def algebra_simps)
qed

lemma sample_size_of_bounds:
  "0 < i \<Longrightarrow> (case rc of None \<Rightarrow> True | Some c \<Rightarrow> 0 \<le> c) \<Longrightarrow>
   0 \<le> sample_size_of rc i \<and> sample_size_of rc i \<le> 100"
  by (cases rc) (simp_all add: sample_size_of_def)

lemma verification_factor_of_bounds:
  "0 \<le> verification_factor_of lv \<and> verification_factor_of lv \<le> 100"
  by (simp add: verification_factor_of_def)

lemma confidence_level_bounds:
  assumes "idealReviews cfg = Fin i" and "0 < i"
    and "opt_rating_count comps = map_option Fin rc"
    and "case rc of None \<Rightarrow> True | Some c \<Rightarrow> 0 \<le> c"
  shows "\<exists>l. fst (calculateConfidence comps cfg) = Fin (of_int l) \<and> 36 \<le> l \<and> l \<le> 86"
proof -
  let ?s = "sample_size_of rc i" and ?v = "verification_factor_of (opt_level comps)"
  let ?x = "0.3 * ?s + 0.2 * 70 + 0.1 * 60 + 0.2 * 80 + 0.2 * ?v"
  from assms have i: "i \<noteq> 0" by simp
  have sb: "0 \<le> ?s \<and> ?s \<le> 100"
    using assms(2,4) by (rule sample_size_of_bounds)
  have vb: "0 \<le> ?v \<and> ?v \<le> 100"
    by (rule verification_factor_of_bounds)
  from sb vb have lo: "36 \<le> ?x" and hi: "?x \<le> 86" by simp_all
  have "round (36::real) \<le> round ?x"
    using lo by (rule round_mono)
  moreover have "round ?x \<le> round (86::real)"
    using hi by (rule round_mono)
  moreover have "round (36::real) = 36" and "round (86::real) = 86"
    by simp_all
  ultimately have "36 \<le> round ?x \<and> round ?x \<le> 86" by linarith
  moreover have "fst (calculateConfidence comps cfg) = Fin (of_int (round ?x))"
    using assms(1) i assms(3) by (simp add: calculateConfidence_finite)
  ultimately show ?thesis by blast
qed

lemma no_categories_opt [simp]:
  "opt_rating_count \<lparr>performanceMetrics = None, verificationDetails = None,
      feedbackMetrics = None, usageMetrics = None, customMetrics = cm\<rparr> = map_option Fin None"
  "opt_level \<lparr>performanceMetrics = None, verificationDetails = None,
      feedbackMetrics = None, usageMetrics = None, customMetrics = cm\<rparr> = None"
  by (simp_all add: opt_rating_count_def opt_level_def)



text \<open>
  C9, as stated, fails for a bundle with a negative rating count: with a count of -25
  and 25 ideal reviews the sample size is -100 and the level is 6.
\<close>

theorem confidence_level_below_floor:
  "idealReviews test_confidence_config = Fin 25 \<and>
   opt_rating_count negative_count_bundle = Some (Fin (- 25)) \<and>
   fst (calculateConfidence negative_count_bundle test_confidence_config) = Fin 6"
  by (simp add: calculateConfidence_def test_confidence_config_def negative_count_bundle_def
        rating_count_or_0_def opt_rating_count_def level_or_none_def opt_level_def
        confidence_weights_def Let_def round_def)

text \<open>
  C9, amended. For a positive finite \<open>idealReviews\<close> and a rating count that is absent or a
  non-negative finite number, the confidence level is an integer between 36 and 100:
  the three constant factors contribute \<open>0.2 * 70 + 0.1 * 60 + 0.2 * 80 = 36\<close>. For a
  bundle with no category at all the level is 36.
\<close>

theorem confidence_level_floor:
  assumes "idealReviews cfg = Fin i" and "0 < i"
    and "opt_rating_count comps = map_option Fin rc"
    and "case rc of None \<Rightarrow> True | Some c \<Rightarrow> 0 \<le> c"
  shows "(\<exists>l. fst (calculateConfidence comps cfg) = Fin (of_int l) \<and> 36 \<le> l \<and> l \<le> 100) \<and>
         fst (calculateConfidence
                \<lparr>performanceMetrics = None, verificationDetails = None,
                   feedbackMetrics = None, usageMetrics = None, customMetrics = cm\<rparr> cfg)
           = Fin 36"
proof -
  from confidence_level_bounds [OF assms]
  have "\<exists>l. fst (calculateConfidence comps cfg) = Fin (of_int l) \<and> 36 \<le> l \<and> l \<le> 100"
    by force
  moreover have
    "fst (calculateConfidence
            \<lparr>performanceMetrics = None, verificationDetails = None,
               feedbackMetrics = None, usageMetrics = None, customMetrics = cm\<rparr> cfg)
       = Fin 36"
    using assms(1,2)
    by (subst calculateConfidence_finite [where i = i and rc = None])
       (simp_all add: sample_size_of_def verification_factor_of_def round_def)
  ultimately show ?thesis by blast
qed

theorem confidence_level_floor_witness:
  "idealReviews test_confidence_config = Fin 25 \<and> (0::real) < 25 \<and>
   opt_rating_count test_confidence_bundle = map_option Fin (Some 20) \<and>
   (case Some (20::real) of None \<Rightarrow> True | Some c \<Rightarrow> 0 \<le> c) \<and>
   (\<exists>l. fst (calculateConfidence test_confidence_bundle test_confidence_config) = Fin (of_int l)
        \<and> 36 \<le> l \<and> l \<le> 100) \<and>
   fst (calculateConfidence
          \<lparr>performanceMetrics = None, verificationDetails = None,
             feedbackMetrics = None, usageMetrics = None, customMetrics = None\<rparr>
          test_confidence_config) = Fin 36"
  using confidence_level_floor [of test_confidence_config 25 test_confidence_bundle "Some 20" None]
  by (simp add: test_confidence_config_def test_confidence_bundle_def opt_rating_count_def)

section \<open>Category scores and the weighted score\<close>

text \<open>
  C10. With the performance category present, a response time of 0 is falsy and
  contributes the default 50, an error rate of 0 is a defined value and contributes 100,
  and an absent uptime contributes 0; the absent response time and error rate contribute
  50 each.
\<close>

theorem performance_zero_fields:
  "calculatePerformanceScore
     \<lparr>performanceMetrics =
        Some \<lparr>uptime_percentage = Some (Fin u), avg_response_time_ms = Some (Fin 0),
              error_rate = Some (Fin 0), successful_transactions = tx\<rparr>,
      verificationDetails = vd, feedbackMetrics = fb, usageMetrics = us, customMetrics = cm\<rparr>
     = Fin (0.5 * u + 0.3 * 50 + 0.2 * 100) \<and>
   calculatePerformanceScore
     \<lparr>performanceMetrics =
        Some \<lparr>uptime_percentage = None, avg_response_time_ms = Some (Fin 0),
              error_rate = Some (Fin 0), successful_transactions = tx\<rparr>,
      verificationDetails = vd, feedbackMetrics = fb, usageMetrics = us, customMetrics = cm\<rparr>
     = Fin (0 + 0.3 * 50 + 0.2 * 100) \<and>
   calculatePerformanceScore
     \<lparr>performanceMetrics =
        Some \<lparr>uptime_percentage = Some (Fin u), avg_response_time_ms = None,
              error_rate = None, successful_transactions = tx\<rparr>,
      verificationDetails = vd, feedbackMetrics = fb, usageMetrics = us, customMetrics = cm\<rparr>
     = Fin (0.5 * u + 0.3 * 50 + 0.2 * 50)"
  by (simp add: calculatePerformanceScore_def Let_def)

lemma scores_test_bundle:
  "calculatePerformanceScore test_bundle = Fin 95.25"
  "calculateVerificationScore test_bundle = Fin 100"
  "calculateFeedbackScore test_bundle = Fin 95"
  "calculateUsageScore test_bundle = Fin 100"
  by (simp_all add: calculatePerformanceScore_def calculateVerificationScore_def
        calculateFeedbackScore_def calculateUsageScore_def test_bundle_def Let_def)

text \<open>
  C7. On the bundle and the weights of the end-to-end scenario the weighted algorithm
  returns verification 100, feedback 95 and the overall score 97, which is above 80.
\<close>

theorem test_bundle_score:
  "category (calculateScore (createWeightedAlgorithm test_config) nowISO sid test_bundle)
      ''verification'' = Some (Fin 100) \<and>
   category (calculateScore (createWeightedAlgorithm test_config) nowISO sid test_bundle)
      ''feedback'' = Some (Fin 95) \<and>
   overallScore (calculateScore (createWeightedAlgorithm test_config) nowISO sid test_bundle)
      = Some (Fin 97) \<and>
   js_gt (Fin 97) (Fin 80)"
  by (simp add: createWeightedAlgorithm_def weighted_calculateScore_def scores_test_bundle
        Let_def category_def test_config_def split_def round_def)

section \<open>Storage\<close>

lemma save_then_get: "getReputationScore (saveReputationScore st s) (serverId s) = Some s"
  by (simp add: getReputationScore_def saveReputationScore_def Let_def)

lemma history_of_save:
  "history_of (saveReputationScore st s) sid =
     (if serverId s = sid then history_of st sid @ [s] else history_of st sid)"
  by (simp add: history_of_def saveReputationScore_def Let_def)

lemma history_of_save_all:
  "\<forall>s \<in> set ss. serverId s = sid \<Longrightarrow>
   history_of (save_all st ss) sid = history_of st sid @ ss"
  unfolding save_all_def
  by (induction ss arbitrary: st) (simp_all add: history_of_save)

lemma history_of_new_save_all:
  assumes "\<forall>s \<in> set ss. serverId s = sid"
  shows "history_of (save_all new_LocalReputationStorage ss) sid = ss"
proof -
  have "history_of new_LocalReputationStorage sid = []"
    by (simp add: history_of_def new_LocalReputationStorage_def)
  with assms show ?thesis
    by (simp add: history_of_save_all)
qed

text \<open>
  With a limit of at least 1 the history query returns the last \<open>min n limit\<close> of the
  \<open>n\<close> saved scores, oldest first.
\<close>

lemma history_positive_limit:
  assumes "\<forall>s \<in> set ss. serverId s = sid" and "1 \<le> l"
  shows "getReputationHistory (save_all new_LocalReputationStorage ss) sid (Some l)
           = drop (length ss - nat l) ss"
proof -
  have "history_of (save_all new_LocalReputationStorage ss) sid = ss"
    using assms(1) by (rule history_of_new_save_all)
  then have "getReputationHistory (save_all new_LocalReputationStorage ss) sid (Some l)
      = js_slice ss (- l)"
    by (simp add: getReputationHistory_def history_of_def Let_def)
  also have "\<dots> = drop (length ss - nat l) ss"
    using assms(2) by (auto simp add: js_slice_def Let_def max_def intro!: arg_cong2[where f=drop])
  finally show ?thesis .
qed

text \<open>With a limit of 0, \<open>slice(-0)\<close> is \<open>slice(0)\<close>: every saved score comes back.\<close>

lemma history_zero_limit:
  assumes "\<forall>s \<in> set ss. serverId s = sid"
  shows "getReputationHistory (save_all new_LocalReputationStorage ss) sid (Some 0) = ss"
proof -
  have "history_of (save_all new_LocalReputationStorage ss) sid = ss"
    using assms by (rule history_of_new_save_all)
  then show ?thesis
    by (simp add: getReputationHistory_def history_of_def Let_def js_slice_def)
qed

text \<open>
  The two queries of the storage test after three saves: a limit of 10 (also the default)
  returns the three scores oldest first, a limit of 2 the two saved last.
\<close>

lemma history_test_limits:
  "getReputationHistory
     (save_all new_LocalReputationStorage [test_score 80, test_score 85, test_score 90])
     ''test-server'' (Some 10) = [test_score 80, test_score 85, test_score 90]"
  "getReputationHistory
     (save_all new_LocalReputationStorage [test_score 80, test_score 85, test_score 90])
     ''test-server'' None = [test_score 80, test_score 85, test_score 90]"
  "getReputationHistory
     (save_all new_LocalReputationStorage [test_score 80, test_score 85, test_score 90])
     ''test-server'' (Some 2) = [test_score 85, test_score 90]"
  by (simp_all add: getReputationHistory_def saveReputationScore_def
        new_LocalReputationStorage_def js_slice_def test_score_def Let_def save_all_def)

text \<open>
  C8. The claim asks for the last \<open>min n limit\<close> saved scores. After the three saves
  of the storage test, a limit of 0 returns all three scores instead of none.
\<close>

theorem history_limit_zero_returns_all:
  "getReputationHistory
     (save_all new_LocalReputationStorage [test_score 80, test_score 85, test_score 90])
     ''test-server'' (Some 0)
   = [test_score 80, test_score 85, test_score 90]"
  by (simp add: getReputationHistory_def saveReputationScore_def new_LocalReputationStorage_def
        js_slice_def test_score_def Let_def save_all_def)

section \<open>Ranges of the scores\<close>

lemma absent_or_finite_cases:
  "absent_or_finite v \<Longrightarrow> v = None \<or> (\<exists>r. v = Some (Fin r))"
  by (cases v rule: absent_or_finite.cases) simp_all

lemma absent_or_between_cases:
  "absent_or_between lo hi v \<Longrightarrow> v = None \<or> (\<exists>r. v = Some (Fin r) \<and> lo \<le> r \<and> r \<le> hi)"
  by (cases "(lo, hi, v)" rule: absent_or_between.cases) simp_all

lemma absent_or_at_least_cases:
  "absent_or_at_least lo v \<Longrightarrow> v = None \<or> (\<exists>r. v = Some (Fin r) \<and> lo \<le> r)"
  by (cases "(lo, v)" rule: absent_or_at_least.cases) simp_all

lemma absent_or_between_finite: "absent_or_between lo hi v \<Longrightarrow> absent_or_finite v"
  by (cases "(lo, hi, v)" rule: absent_or_between.cases) simp_all

lemma bounded_weights_finite: "bounded_weights w \<Longrightarrow> finite_weights w"
  unfolding bounded_weights_def finite_weights_def
  by (blast intro: absent_or_between_finite)

lemma bounded_metrics_finite: "bounded_metrics c \<Longrightarrow> finite_metrics c"
  unfolding bounded_metrics_def finite_metrics_def
  by (auto split: option.splits intro: absent_or_between_finite)

lemma performance_finite:
  assumes "finite_metrics c"
  shows "absent_or_finite (Some (calculatePerformanceScore c))"
proof (cases "performanceMetrics c")
  case None
  then show ?thesis by (simp add: calculatePerformanceScore_def)
next
  case (Some m)
  with assms have "absent_or_finite (uptime_percentage m)"
    and "absent_or_finite (avg_response_time_ms m)" and "absent_or_finite (error_rate m)"
    by (simp_all add: finite_metrics_def)
  then show ?thesis
    by (auto simp add: calculatePerformanceScore_def Some Let_def dest!: absent_or_finite_cases)
qed

lemma verification_range: "in_0_100 (Some (calculateVerificationScore c))"
  by (simp add: calculateVerificationScore_def split: option.splits)

lemma feedback_finite:
  assumes "finite_metrics c"
  shows "absent_or_finite (Some (calculateFeedbackScore c))"
proof (cases "feedbackMetrics c")
  case None
  then show ?thesis by (simp add: calculateFeedbackScore_def)
next
  case (Some m)
  with assms have "absent_or_finite (average_rating m)"
    by (simp add: finite_metrics_def)
  then show ?thesis
    by (auto simp add: calculateFeedbackScore_def Some dest!: absent_or_finite_cases)
qed

lemma usage_finite:
  assumes "finite_metrics c"
  shows "absent_or_finite (Some (calculateUsageScore c))"
proof (cases "usageMetrics c")
  case None
  then show ?thesis by (simp add: calculateUsageScore_def)
next
  case (Some m)
  with assms have "absent_or_finite (total_requests m)"
    and "absent_or_finite (unique_clients m)" and "absent_or_finite (longevity_days m)"
    by (simp_all add: finite_metrics_def)
  then show ?thesis
    by (auto simp add: calculateUsageScore_def Some Let_def dest!: absent_or_finite_cases)
qed

lemma uptime_term_range:
  "absent_or_between 0 100 v \<Longrightarrow> \<exists>u. num_or v (Fin 0) = Fin u \<and> 0 \<le> u \<and> u \<le> 100"
  by (auto dest!: absent_or_between_cases)

lemma response_term_range:
  "absent_or_at_least 0 v \<Longrightarrow>
   \<exists>t. (if truthy v then js_max (Fin 0) (js_sub (Fin 100) (js_div (the v) (Fin 10))) else Fin 50)
          = Fin t \<and> 0 \<le> t \<and> t \<le> 100"
  by (auto dest!: absent_or_at_least_cases)

lemma error_term_range:
  "absent_or_between 0 1 v \<Longrightarrow>
   \<exists>e. (case v of Some e \<Rightarrow> js_max (Fin 0) (js_sub (Fin 100) (js_mul e (Fin 100))) | None \<Rightarrow> Fin 50)
          = Fin e \<and> 0 \<le> e \<and> e \<le> 100"
  by (auto dest!: absent_or_between_cases)

lemma performance_range:
  assumes "documented_ranges c"
  shows "in_0_100 (Some (calculatePerformanceScore c))"
proof (cases "performanceMetrics c")
  case None
  then show ?thesis by (simp add: calculatePerformanceScore_def)
next
  case (Some m)
  with assms have r1: "absent_or_between 0 100 (uptime_percentage m)"
    and r2: "absent_or_at_least 0 (avg_response_time_ms m)"
    and r3: "absent_or_between 0 1 (error_rate m)"
    by (simp_all add: documented_ranges_def)
  obtain u where
    u: "num_or (uptime_percentage m) (Fin 0) = Fin u" "0 \<le> u" "u \<le> 100"
    using uptime_term_range [OF r1] by blast
  obtain t where
    t: "(if truthy (avg_response_time_ms m)
         then js_max (Fin 0) (js_sub (Fin 100) (js_div (the (avg_response_time_ms m)) (Fin 10)))
         else Fin 50) = Fin t" "0 \<le> t" "t \<le> 100"
    using response_term_range [OF r2] by blast
  obtain e where
    e: "(case error_rate m of
           Some e \<Rightarrow> js_max (Fin 0) (js_sub (Fin 100) (js_mul e (Fin 100)))
         | None \<Rightarrow> Fin 50) = Fin e" "0 \<le> e" "e \<le> 100"
    using error_term_range [OF r3] by blast
  have "calculatePerformanceScore c = Fin (u * 0.5 + t * 0.3 + e * 0.2)"
    unfolding calculatePerformanceScore_def Some Let_def option.case u(1) t(1) e(1) by simp
  moreover have "0 \<le> u * 0.5 + t * 0.3 + e * 0.2" and "u * 0.5 + t * 0.3 + e * 0.2 \<le> 100"
    using u(2,3) t(2,3) e(2,3) by simp_all
  ultimately show ?thesis by simp
qed

lemma feedback_range:
  assumes "documented_ranges c"
  shows "in_0_100 (Some (calculateFeedbackScore c))"
proof (cases "feedbackMetrics c")
  case None
  then show ?thesis by (simp add: calculateFeedbackScore_def)
next
  case (Some m)
  with assms have "absent_or_between 1 5 (average_rating m)"
    by (simp add: documented_ranges_def)
  then show ?thesis
    by (auto simp add: calculateFeedbackScore_def Some dest!: absent_or_between_cases)
qed

lemma usage_term_range:
  "0 < d \<Longrightarrow> absent_or_at_least 0 v \<Longrightarrow>
   \<exists>t. (if truthy v then js_min (Fin 100) (js_mul (js_div (the v) (Fin d)) (Fin 100)) else Fin 0)
          = Fin t \<and> 0 \<le> t \<and> t \<le> 100"
  by (auto dest!: absent_or_at_least_cases)

lemma usage_range:
  assumes "documented_ranges c"
  shows "in_0_100 (Some (calculateUsageScore c))"
proof (cases "usageMetrics c")
  case None
  then show ?thesis by (simp add: calculateUsageScore_def)
next
  case (Some m)
  with assms have r1: "absent_or_at_least 0 (total_requests m)"
    and r2: "absent_or_at_least 0 (unique_clients m)"
    and r3: "absent_or_at_least 0 (longevity_days m)"
    by (simp_all add: documented_ranges_def)
  have pos: "(0::real) < 1000" "(0::real) < 100" "(0::real) < 30"
    by simp_all
  obtain q where
    q: "(if truthy (total_requests m)
         then js_min (Fin 100) (js_mul (js_div (the (total_requests m)) (Fin 1000)) (Fin 100))
         else Fin 0) = Fin q" "0 \<le> q" "q \<le> 100"
    using usage_term_range [OF pos(1) r1] by blast
  obtain d where
    d: "(if truthy (unique_clients m)
         then js_min (Fin 100) (js_mul (js_div (the (unique_clients m)) (Fin 100)) (Fin 100))
         else Fin 0) = Fin d" "0 \<le> d" "d \<le> 100"
    using usage_term_range [OF pos(2) r2] by blast
  obtain l where
    l: "(if truthy (longevity_days m)
         then js_min (Fin 100) (js_mul (js_div (the (longevity_days m)) (Fin 30)) (Fin 100))
         else Fin 0) = Fin l" "0 \<le> l" "l \<le> 100"
    using usage_term_range [OF pos(3) r3] by blast
  have "calculateUsageScore c = Fin (q * 0.3 + d * 0.4 + l * 0.3)"
    unfolding calculateUsageScore_def Some Let_def option.case q(1) d(1) l(1) by simp
  moreover have "0 \<le> q * 0.3 + d * 0.4 + l * 0.3" and "q * 0.3 + d * 0.4 + l * 0.3 \<le> 100"
    using q(2,3) d(2,3) l(2,3) by simp_all
  ultimately show ?thesis by simp
qed

lemma round_0_100:
  fixes r :: real
  assumes "0 \<le> r" and "r \<le> 100"
  shows "0 \<le> round r \<and> round r \<le> 100"
proof -
  have "round (0::real) \<le> round r" using assms(1) by (rule round_mono)
  moreover have "round r \<le> round (100::real)" using assms(2) by (rule round_mono)
  moreover have "round (0::real) = 0" and "round (100::real) = 100" by simp_all
  ultimately show ?thesis by linarith
qed

lemma js_round_in_0_100: "in_0_100 (Some a) \<Longrightarrow> in_0_100 (Some (js_round a))"
  by (cases a) (simp_all add: round_0_100)

lemma clamp_round_in_0_100:
  "in_0_100 (Some (js_round (js_min (Fin 100) (js_max (Fin 0) (Fin w)))))"
  by (rule js_round_in_0_100) simp


lemma calculateScore_categories:
  "category (calculateScore (createWeightedAlgorithm cfg) nowISO sid comps) ''performance''
     = Some (js_round (calculatePerformanceScore comps))"
  "category (calculateScore (createWeightedAlgorithm cfg) nowISO sid comps) ''verification''
     = Some (js_round (calculateVerificationScore comps))"
  "category (calculateScore (createWeightedAlgorithm cfg) nowISO sid comps) ''feedback''
     = Some (js_round (calculateFeedbackScore comps))"
  "category (calculateScore (createWeightedAlgorithm cfg) nowISO sid comps) ''usage''
     = Some (js_round (calculateUsageScore comps))"
  by (simp_all add: createWeightedAlgorithm_def weighted_calculateScore_def Let_def split_def
        category_def)

lemma calculateScore_overall:
  "overallScore (calculateScore (createWeightedAlgorithm cfg) nowISO sid comps) =
     Some (js_round (js_min (Fin 100) (js_max (Fin 0)
       (js_add (js_add (js_add
          (js_mul (calculatePerformanceScore comps) (performance (weights cfg)))
          (js_mul (calculateVerificationScore comps) (verification (weights cfg))))
          (js_mul (calculateFeedbackScore comps) (feedback (weights cfg))))
          (js_mul (calculateUsageScore comps) (usage (weights cfg)))))))"
  by (simp add: createWeightedAlgorithm_def weighted_calculateScore_def Let_def split_def)

lemma calculateScore_confidence:
  "confidence_level (calculateScore (createWeightedAlgorithm cfg) nowISO sid comps) =
     Some (fst (calculateConfidence comps
       \<lparr>minReviews = minimumReviews cfg, idealReviews = js_mul (minimumReviews cfg) (Fin 5),
        minAge = Fin 7, idealAge = Fin 30, verificationImportance = Fin 0.2\<rparr>))"
  by (simp add: createWeightedAlgorithm_def weighted_calculateScore_def Let_def split_def
        confidence_level_def)

lemma in_0_100_finite: "in_0_100 (Some a) \<Longrightarrow> absent_or_finite (Some a)"
  by (cases a) simp_all

text \<open>
  C2, as stated, fails: the category scores are rounded, not clamped. With an uptime of
  200 the performance score is 125, with an average rating of 10 the feedback score is
  225.
\<close>

theorem category_scores_not_clamped:
  "category (calculateScore (createWeightedAlgorithm test_config) ''2024-01-01T00:00:00.000Z''
       ''test-server'' out_of_range_bundle) ''performance'' = Some (Fin 125) \<and>
   category (calculateScore (createWeightedAlgorithm test_config) ''2024-01-01T00:00:00.000Z''
       ''test-server'' out_of_range_bundle) ''feedback'' = Some (Fin 225) \<and>
   \<not> in_0_100 (category (calculateScore (createWeightedAlgorithm test_config)
       ''2024-01-01T00:00:00.000Z'' ''test-server'' out_of_range_bundle) ''performance'')"
  by (simp add: calculateScore_categories calculatePerformanceScore_def calculateFeedbackScore_def
        out_of_range_bundle_def Let_def round_def)

text \<open>
  C2, amended. For weights and numeric fields that are finite numbers of magnitude at
  most \<open>10\<^sup>1\<^sup>0\<^sup>0\<close>, in or out of their documented ranges, the overall score and the
  verification score lie between 0 and 100; the performance, feedback and usage scores
  lie between 0 and 100 when the fields lie in their documented ranges.
\<close>

theorem score_ranges:
  assumes "bounded_weights (weights cfg)" and "bounded_metrics comps"
  shows "in_0_100 (overallScore (calculateScore (createWeightedAlgorithm cfg) nowISO sid comps)) \<and>
     in_0_100 (category (calculateScore (createWeightedAlgorithm cfg) nowISO sid comps)
                 ''verification'') \<and>
     (documented_ranges comps \<longrightarrow>
        in_0_100 (category (calculateScore (createWeightedAlgorithm cfg) nowISO sid comps)
                    ''performance'') \<and>
        in_0_100 (category (calculateScore (createWeightedAlgorithm cfg) nowISO sid comps)
                    ''feedback'') \<and>
        in_0_100 (category (calculateScore (createWeightedAlgorithm cfg) nowISO sid comps)
                    ''usage''))"
proof (intro conjI impI)
  from assms(1) have fw: "finite_weights (weights cfg)"
    by (rule bounded_weights_finite)
  from assms(2) have fm: "finite_metrics comps"
    by (rule bounded_metrics_finite)
  from fw obtain w_perf w_verif w_feedb w_usage where w:
    "performance (weights cfg) = Fin w_perf" "verification (weights cfg) = Fin w_verif"
    "feedback (weights cfg) = Fin w_feedb" "usage (weights cfg) = Fin w_usage"
    unfolding finite_weights_def by (auto dest!: absent_or_finite_cases)
  from fm obtain p f u where s:
    "calculatePerformanceScore comps = Fin p" "calculateFeedbackScore comps = Fin f"
    "calculateUsageScore comps = Fin u"
    using performance_finite [OF fm] feedback_finite [OF fm] usage_finite [OF fm]
    by (auto dest!: absent_or_finite_cases)
  obtain v where v: "calculateVerificationScore comps = Fin v"
    using in_0_100_finite [OF verification_range] by (auto dest!: absent_or_finite_cases)
  have total:
    "js_add (js_add (js_add
        (js_mul (calculatePerformanceScore comps) (performance (weights cfg)))
        (js_mul (calculateVerificationScore comps) (verification (weights cfg))))
        (js_mul (calculateFeedbackScore comps) (feedback (weights cfg))))
        (js_mul (calculateUsageScore comps) (usage (weights cfg)))
      = Fin (p * w_perf + v * w_verif + f * w_feedb + u * w_usage)"
    unfolding w s v by simp
  show "in_0_100 (overallScore (calculateScore (createWeightedAlgorithm cfg) nowISO sid comps))"
    unfolding calculateScore_overall total
    by (rule clamp_round_in_0_100)
  show "in_0_100 (category (calculateScore (createWeightedAlgorithm cfg) nowISO sid comps)
                 ''verification'')"
    unfolding calculateScore_categories
    by (rule js_round_in_0_100) (rule verification_range)
next
  assume r: "documented_ranges comps"
  show "in_0_100 (category (calculateScore (createWeightedAlgorithm cfg) nowISO sid comps)
                    ''performance'')"
    unfolding calculateScore_categories
    using r by (intro js_round_in_0_100 performance_range)
  show "in_0_100 (category (calculateScore (createWeightedAlgorithm cfg) nowISO sid comps)
                    ''feedback'')"
    unfolding calculateScore_categories
    using r by (intro js_round_in_0_100 feedback_range)
  show "in_0_100 (category (calculateScore (createWeightedAlgorithm cfg) nowISO sid comps)
                    ''usage'')"
    unfolding calculateScore_categories
    using r by (intro js_round_in_0_100 usage_range)
qed

theorem score_ranges_witness:
  "bounded_weights (weights test_config) \<and> bounded_metrics test_bundle \<and>
   documented_ranges test_bundle \<and>
   in_0_100 (overallScore (calculateScore (createWeightedAlgorithm test_config)
       ''2024-01-01T00:00:00.000Z'' ''test-server'' test_bundle)) \<and>
   in_0_100 (category (calculateScore (createWeightedAlgorithm test_config)
       ''2024-01-01T00:00:00.000Z'' ''test-server'' test_bundle) ''verification'') \<and>
   in_0_100 (category (calculateScore (createWeightedAlgorithm test_config)
       ''2024-01-01T00:00:00.000Z'' ''test-server'' test_bundle) ''performance'') \<and>
   in_0_100 (category (calculateScore (createWeightedAlgorithm test_config)
       ''2024-01-01T00:00:00.000Z'' ''test-server'' test_bundle) ''feedback'') \<and>
   in_0_100 (category (calculateScore (createWeightedAlgorithm test_config)
       ''2024-01-01T00:00:00.000Z'' ''test-server'' test_bundle) ''usage'')"
  using score_ranges [of test_config test_bundle "''2024-01-01T00:00:00.000Z''" "''test-server''"]
  by (simp add: bounded_weights_def bounded_metrics_def documented_ranges_def test_config_def
        test_bundle_def)

section \<open>A subject without data\<close>

text \<open>
  C1, as stated, fails on the confidence: for the bundle without any category the level
  is 36, more than a third of the scale and not near zero; and with \<open>minimumReviews = 0\<close>
  the sample size is \<open>0 / 0\<close> and the level is \<open>NaN\<close>.
\<close>

theorem no_data_confidence_not_near_zero:
  "confidence_level (calculateScore (createWeightedAlgorithm test_config)
      ''2024-01-01T00:00:00.000Z'' ''test-server'' no_components) = Some (Fin 36) \<and>
   confidence_level (calculateScore (createWeightedAlgorithm (test_config\<lparr>minimumReviews := Fin 0\<rparr>))
      ''2024-01-01T00:00:00.000Z'' ''test-server'' no_components) = Some NaN"
  by (simp add: calculateScore_confidence calculateConfidence_def test_config_def
        no_components_def rating_count_or_0_def opt_rating_count_def level_or_none_def
        opt_level_def confidence_weights_def Let_def inf_of_sign_def round_def)

text \<open>
  C1, amended. For a positive finite \<open>minimumReviews\<close> and weights of magnitude at most
  1000 whose blend of the defaults is off every rounding tie, the score of the bundle
  without any category is the full record below: categories 50, 0, 50, 50, no data
  points, the overall score the weighted blend of these defaults clamped to 0 to 100 and
  rounded, and the confidence level 36. That level is the least one: every bundle whose
  rating count is absent or a non-negative finite number has a level of at least 36.
  The bound on the weights and the distance from a tie keep binary64 rounding from
  changing the rounded overall score.
\<close>

theorem no_data_score:
  assumes "0 < m"
    and "opt_rating_count comps = map_option Fin rc"
    and "case rc of None \<Rightarrow> True | Some c \<Rightarrow> 0 \<le> c"
    and "\<bar>w_perf\<bar> \<le> 1000" and "\<bar>w_verif\<bar> \<le> 1000"
    and "\<bar>w_feedb\<bar> \<le> 1000" and "\<bar>w_usage\<bar> \<le> 1000"
    and "off_tie (50 * w_perf + 0 * w_verif + 50 * w_feedb + 50 * w_usage)"
  shows "calculateScore
       (createWeightedAlgorithm
          \<lparr>weights = \<lparr>performance = Fin w_perf, verification = Fin w_verif, feedback = Fin w_feedb,
                       usage = Fin w_usage\<rparr>,
           timeDecayDays = td, minimumReviews = Fin m\<rparr>)
       nowISO sid
       \<lparr>performanceMetrics = None, verificationDetails = None, feedbackMetrics = None,
        usageMetrics = None, customMetrics = cm\<rparr>
     = \<lparr>serverId = sid,
        overallScore =
          Some (Fin (of_int (round (min 100 (max 0 (50 * w_perf + 0 * w_verif + 50 * w_feedb + 50 * w_usage)))))),
        categories =
          Some [(''performance'', Fin 50), (''verification'', Fin 0), (''feedback'', Fin 50),
                (''usage'', Fin 50)],
        confidence =
          Some \<lparr>conf_level = Some (Fin 36),
                factors =
                  Some [(''sample_size'', Fin 0), (''consistency'', Fin 70),
                        (''diversity'', Fin 60), (''recency'', Fin 80),
                        (''verification_level'', Fin 0)]\<rparr>,
        lastUpdated = nowISO, dataPoints = Some (Fin 0),
        algorithm = Some ''weighted-score-v1'', customFields = None\<rparr> \<and>
     (\<exists>l. confidence_level
             (calculateScore
                (createWeightedAlgorithm
                   \<lparr>weights = \<lparr>performance = Fin w_perf, verification = Fin w_verif, feedback = Fin w_feedb,
                                usage = Fin w_usage\<rparr>,
                    timeDecayDays = td, minimumReviews = Fin m\<rparr>)
                nowISO sid comps) = Some (Fin (of_int l)) \<and> 36 \<le> l)"
proof
  let ?cc = "\<lparr>minReviews = Fin m, idealReviews = Fin (m * 5), minAge = Fin 7,
              idealAge = Fin 30, verificationImportance = Fin 0.2\<rparr>"
  let ?none = "\<lparr>performanceMetrics = None, verificationDetails = None, feedbackMetrics = None,
        usageMetrics = None, customMetrics = cm\<rparr>"
  from assms(1) have m5: "m * 5 \<noteq> 0" "0 < m * 5" by simp_all
  have conf: "calculateConfidence ?none cc =
      (Fin 36, [(''sample_size'', Fin 0), (''consistency'', Fin 70), (''diversity'', Fin 60),
                (''recency'', Fin 80), (''verification_level'', Fin 0)])"
    if "idealReviews cc = Fin (m * 5)" for cc
    using that m5(1)
    by (subst calculateConfidence_finite [where i = "m * 5" and rc = None])
       (simp_all add: sample_size_of_def verification_factor_of_def round_def)
  show "calculateScore
       (createWeightedAlgorithm
          \<lparr>weights = \<lparr>performance = Fin w_perf, verification = Fin w_verif, feedback = Fin w_feedb,
                       usage = Fin w_usage\<rparr>,
           timeDecayDays = td, minimumReviews = Fin m\<rparr>)
       nowISO sid ?none
     = \<lparr>serverId = sid,
        overallScore =
          Some (Fin (of_int (round (min 100 (max 0 (50 * w_perf + 0 * w_verif + 50 * w_feedb + 50 * w_usage)))))),
        categories =
          Some [(''performance'', Fin 50), (''verification'', Fin 0), (''feedback'', Fin 50),
                (''usage'', Fin 50)],
        confidence =
          Some \<lparr>conf_level = Some (Fin 36),
                factors =
                  Some [(''sample_size'', Fin 0), (''consistency'', Fin 70),
                        (''diversity'', Fin 60), (''recency'', Fin 80),
                        (''verification_level'', Fin 0)]\<rparr>,
        lastUpdated = nowISO, dataPoints = Some (Fin 0),
        algorithm = Some ''weighted-score-v1'', customFields = None\<rparr>"
    by (simp add: createWeightedAlgorithm_def weighted_calculateScore_def Let_def conf
          calculatePerformanceScore_def calculateVerificationScore_def
          calculateFeedbackScore_def calculateUsageScore_def rating_count_or_0_def
          min.commute max.commute)
  have "idealReviews ?cc = Fin (m * 5)" by simp
  from confidence_level_bounds [OF this m5(2) assms(2,3)]
  show "\<exists>l. confidence_level
             (calculateScore
                (createWeightedAlgorithm
                   \<lparr>weights = \<lparr>performance = Fin w_perf, verification = Fin w_verif, feedback = Fin w_feedb,
                                usage = Fin w_usage\<rparr>,
                    timeDecayDays = td, minimumReviews = Fin m\<rparr>)
                nowISO sid comps) = Some (Fin (of_int l)) \<and> 36 \<le> l"
    by (auto simp add: calculateScore_confidence)
qed

theorem no_data_score_witness:
  "(0::real) < 5 \<and> opt_rating_count test_bundle = map_option Fin (Some 50) \<and>
   (case Some (50::real) of None \<Rightarrow> True | Some c \<Rightarrow> 0 \<le> c) \<and>
   \<bar>0.4 :: real\<bar> \<le> 1000 \<and> \<bar>0.3 :: real\<bar> \<le> 1000 \<and> \<bar>0.2 :: real\<bar> \<le> 1000 \<and>
   \<bar>0.1 :: real\<bar> \<le> 1000 \<and> off_tie (50 * 0.4 + 0 * 0.3 + 50 * 0.2 + 50 * 0.1) \<and>
   calculateScore (createWeightedAlgorithm test_config) ''2024-01-01T00:00:00.000Z''
       ''test-server'' no_components
     = \<lparr>serverId = ''test-server'', overallScore = Some (Fin 35),
        categories =
          Some [(''performance'', Fin 50), (''verification'', Fin 0), (''feedback'', Fin 50),
                (''usage'', Fin 50)],
        confidence =
          Some \<lparr>conf_level = Some (Fin 36),
                factors =
                  Some [(''sample_size'', Fin 0), (''consistency'', Fin 70),
                        (''diversity'', Fin 60), (''recency'', Fin 80),
                        (''verification_level'', Fin 0)]\<rparr>,
        lastUpdated = ''2024-01-01T00:00:00.000Z'', dataPoints = Some (Fin 0),
        algorithm = Some ''weighted-score-v1'', customFields = None\<rparr> \<and>
   (\<exists>l. confidence_level
           (calculateScore (createWeightedAlgorithm test_config) ''2024-01-01T00:00:00.000Z''
              ''test-server'' test_bundle) = Some (Fin (of_int l)) \<and> 36 \<le> l)"
  using no_data_score [where m = 5 and comps = test_bundle and rc = "Some 50"
      and w_perf = "0.4" and w_verif = "0.3" and w_feedb = "0.2" and w_usage = "0.1"
      and td = "Fin 30" and nowISO = "''2024-01-01T00:00:00.000Z''"
      and sid = "''test-server''" and cm = None]
  by (simp add: test_config_def no_components_def test_bundle_def opt_rating_count_def
        round_def off_tie_def)

section \<open>Outlier detection\<close>

lemma foldl_js_add_Fin:
  "foldl (\<lambda>sum val. js_add sum val) (Fin a) (map Fin vs) = Fin (a + sum_list vs)"
  by (induction vs arbitrary: a) (simp_all add: add.assoc)

lemma collect_indices:
  "foldl (\<lambda>outliers (val, index). if P val then outliers @ [index] else outliers) acc ps
     = acc @ map snd (filter (\<lambda>p. P (fst p)) ps)"
  by (induction ps arbitrary: acc) (simp_all add: case_prod_beta)

lemma zip_with_indices:
  "zip xs [0..<length xs] = map (\<lambda>i. (xs ! i, i)) [0..<length xs]"
  by (rule nth_equalityI) simp_all

lemma indices_filter:
  "map snd (filter (\<lambda>p. P (fst p)) (zip xs [0..<length xs])) = filter (\<lambda>i. P (xs ! i)) [0..<length xs]"
  by (simp add: zip_with_indices filter_map comp_def)

lemma sum_squares_zero:
  fixes vs :: "real list"
  assumes "sum_list (map (\<lambda>v. (v - m)\<^sup>2) vs) = 0" and "v \<in> set vs"
  shows "v = m"
proof -
  have "0 \<le> x" if "x \<in> set (map (\<lambda>v. (v - m)\<^sup>2) vs)" for x
    using that by auto
  then have "sum_list (map (\<lambda>v. (v - m)\<^sup>2) vs) = 0
      \<longleftrightarrow> (\<forall>x \<in> set (map (\<lambda>v. (v - m)\<^sup>2) vs). x = 0)"
    by (rule sum_list_nonneg_eq_0_iff)
  with assms(1) have "\<forall>x \<in> set (map (\<lambda>v. (v - m)\<^sup>2) vs). x = 0"
    by blast
  with assms(2) have "(v - m)\<^sup>2 = 0" by simp
  then show ?thesis by simp
qed


lemma js_pow_square:
  assumes "x = 0 \<or> 1 / 1000 \<le> \<bar>x\<bar>" and "\<bar>x\<bar> \<le> 2 * 10 ^ 6"
  shows "js_pow (Fin x) (Fin 2) = Fin (x\<^sup>2)"
proof (cases "x = 0")
  case True
  then show ?thesis by simp
next
  case False
  with assms(1) have lo: "1 / 1000 \<le> \<bar>x\<bar>" by simp
  have "(1 / 1000)\<^sup>2 \<le> \<bar>x\<bar>\<^sup>2"
    using lo by (intro power_mono) simp_all
  moreover have "(1::real) / 2 ^ 1075 < 1 / 1000000" by simp
  moreover have "((1::real) / 1000)\<^sup>2 = 1 / 1000000" by (simp add: power2_eq_square)
  ultimately have l: "1 / 2 ^ 1075 < x\<^sup>2" by simp
  have "\<bar>x\<bar>\<^sup>2 \<le> (2 * 10 ^ 6)\<^sup>2"
    using assms(2) by (intro power_mono) simp_all
  moreover have "((2::real) * 10 ^ 6)\<^sup>2 < 2 ^ 1024" by simp
  ultimately have u: "x\<^sup>2 < 2 ^ 1024" by simp
  from l u have r: "pow_result (x\<^sup>2) = Fin (x\<^sup>2)"
    by (rule pow_result_in_range)
  show ?thesis
  proof (cases "0 < x")
    case True
    then show ?thesis using r by simp
  next
    case neg: False
    with False have "x < 0" by simp
    then show ?thesis
      using r by (simp add: is_integral_def int_power_def)
  qed
qed

lemma sum_list_Ints:
  fixes vs :: "real list"
  shows "\<forall>v \<in> set vs. v \<in> \<int> \<Longrightarrow> sum_list vs \<in> \<int>"
  by (induction vs) simp_all

lemma abs_sum_list_bound:
  fixes vs :: "real list"
  shows "\<forall>v \<in> set vs. \<bar>v\<bar> \<le> b \<Longrightarrow> \<bar>sum_list vs\<bar> \<le> real (length vs) * b"
proof (induction vs)
  case Nil
  then show ?case by simp
next
  case (Cons a vs)
  then have "\<bar>a\<bar> \<le> b" and "\<bar>sum_list vs\<bar> \<le> real (length vs) * b" by simp_all
  then show ?case by (simp add: algebra_simps)
qed

lemma deviation_of_whole_numbers:
  fixes vs :: "real list"
  assumes ints: "\<forall>v \<in> set vs. v \<in> \<int> \<and> \<bar>v\<bar> \<le> 10 ^ 6"
    and len: "length vs \<le> 1000" and v: "v \<in> set vs"
  shows "(v - pop_mean vs = 0 \<or> 1 / 1000 \<le> \<bar>v - pop_mean vs\<bar>) \<and> \<bar>v - pop_mean vs\<bar> \<le> 2 * 10 ^ 6"
proof -
  let ?n = "real (length vs)"
  from v have n: "0 < ?n" by (cases vs) simp_all
  have mean: "pop_mean vs * ?n = sum_list vs"
    using n by (simp add: pop_mean_def)
  have "\<bar>sum_list vs\<bar> \<le> ?n * 10 ^ 6"
    using ints by (intro abs_sum_list_bound) simp
  then have "\<bar>sum_list vs\<bar> / ?n \<le> ?n * 10 ^ 6 / ?n"
    using n by (intro divide_right_mono) simp_all
  moreover have "\<bar>pop_mean vs\<bar> = \<bar>sum_list vs\<bar> / ?n"
    using n by (simp add: pop_mean_def)
  ultimately have m: "\<bar>pop_mean vs\<bar> \<le> 10 ^ 6"
    using n by simp
  from ints v have "\<bar>v\<bar> \<le> 10 ^ 6" by simp
  with m have upper: "\<bar>v - pop_mean vs\<bar> \<le> 2 * 10 ^ 6" by linarith
  have "sum_list vs \<in> \<int>"
    using ints by (intro sum_list_Ints) simp
  moreover from ints v have "v \<in> \<int>" by simp
  ultimately have "v * ?n - sum_list vs \<in> \<int>" by simp
  then have z: "(v - pop_mean vs) * ?n \<in> \<int>"
    using mean by (simp add: algebra_simps)
  have lower: "v - pop_mean vs = 0 \<or> 1 / 1000 \<le> \<bar>v - pop_mean vs\<bar>"
  proof (cases "v - pop_mean vs = 0")
    case True
    then show ?thesis by simp
  next
    case False
    with n have "(v - pop_mean vs) * ?n \<noteq> 0" by simp
    with z have "1 \<le> \<bar>(v - pop_mean vs) * ?n\<bar>"
      by (rule Ints_nonzero_abs_ge1)
    then have "1 \<le> \<bar>v - pop_mean vs\<bar> * ?n"
      using n by (simp add: abs_mult)
    also have "\<dots> \<le> \<bar>v - pop_mean vs\<bar> * 1000"
      using len by (intro mult_left_mono) simp_all
    finally show ?thesis by simp
  qed
  from lower upper show ?thesis by blast
qed

lemma pop_stddev_pair: "pop_mean [a, - a] = 0" "pop_stddev [a, - a] = \<bar>a\<bar>"
proof -
  show m: "pop_mean [a, - a] = 0" by (simp add: pop_mean_def)
  show "pop_stddev [a, - a] = \<bar>a\<bar>"
    by (simp add: pop_stddev_def m)
qed

text \<open>
  C4, as stated, fails: the squares are taken with \<open>Math.pow\<close>, which overflows. For the
  two values \<open>10\<^sup>2\<^sup>0\<^sup>0\<close> and \<open>-10\<^sup>2\<^sup>0\<^sup>0\<close> and the threshold 0.5 both z-scores are 1
  and both indices are outliers by the formula, but the computed variance and standard
  deviation are infinite, the computed z-scores are 0 and nothing is returned.
\<close>

theorem outliers_lost_by_overflow:
  "detectOutliers [Fin (10 ^ 200), Fin (- (10 ^ 200))] (Some (Fin 0.5)) = [] \<and>
   filter (\<lambda>i. 0.5 < \<bar>[10 ^ 200, - (10 ^ 200)] ! i - pop_mean [10 ^ 200, - (10 ^ 200)]\<bar>
                      / pop_stddev [10 ^ 200, - (10 ^ 200)]) [0..<2] = [0, 1]"
proof
  show "detectOutliers [Fin (10 ^ 200), Fin (- (10 ^ 200))] (Some (Fin 0.5)) = []"
    by (simp add: detectOutliers_def Let_def pow_result_def inf_of_sign_def is_integral_def
          int_power_def)
  have "[0..<2] = [0, Suc 0]" by (simp add: upt_rec)
  then show "filter (\<lambda>i. 0.5 < \<bar>[10 ^ 200, - (10 ^ 200)] ! i - pop_mean [10 ^ 200, - (10 ^ 200)]\<bar>
                      / pop_stddev [10 ^ 200, - (10 ^ 200)]) [0..<2] = [0, 1]"
    by (simp add: pop_stddev_pair)
qed

text \<open>
  C4, amended. On a list of at most 1000 whole numbers of magnitude at most \<open>10\<^sup>6\<close>,
  with a finite threshold that no z-score comes closer to than 0.001, \<open>detectOutliers\<close>
  returns nothing for fewer than two values and nothing when the population standard
  deviation is 0 (all values equal; the code divides 0 by 0 and \<open>NaN\<close> exceeds no
  threshold), and otherwise exactly the indices, in increasing order, of the values whose
  distance from the population mean divided by the population standard deviation exceeds
  the threshold. Whole numbers of this size are summed without rounding, and the margin
  is wider than binary64 rounding moves a z-score.
\<close>

theorem detectOutliers_whole_numbers:
  assumes ints: "\<forall>v \<in> set vs. v \<in> \<int> \<and> \<bar>v\<bar> \<le> 10 ^ 6"
    and len: "length vs \<le> 1000"
    and margin: "\<forall>v \<in> set vs. pop_stddev vs = 0 \<or>
                   1 / 1000 \<le> \<bar>\<bar>v - pop_mean vs\<bar> / pop_stddev vs - z\<bar>"
  shows "detectOutliers (map Fin vs) (Some (Fin z)) =
     (if length vs < 2 \<or> pop_stddev vs = 0 then []
      else filter (\<lambda>i. z < \<bar>vs ! i - pop_mean vs\<bar> / pop_stddev vs) [0..<length vs])"
proof (cases "length vs < 2")
  case True
  then show ?thesis by (simp add: detectOutliers_def)
next
  case False
  let ?n = "real (length vs)"
  let ?m = "pop_mean vs"
  let ?sd = "pop_stddev vs"
  from False have n: "?n \<noteq> 0" by auto
  have mean: "js_div (foldl (\<lambda>sum val. js_add sum val) (Fin 0) (map Fin vs)) (Fin ?n) = Fin ?m"
    using n by (simp add: foldl_js_add_Fin pop_mean_def)
  have sq: "map (\<lambda>val. js_pow (js_sub val (Fin ?m)) (Fin 2)) (map Fin vs)
      = map Fin (map (\<lambda>v. (v - ?m)\<^sup>2) vs)"
  proof -
    have "js_pow (js_sub (Fin v) (Fin ?m)) (Fin 2) = Fin ((v - ?m)\<^sup>2)" if "v \<in> set vs" for v
    proof -
      from deviation_of_whole_numbers [OF ints len that]
      have "js_pow (Fin (v - ?m)) (Fin 2) = Fin ((v - ?m)\<^sup>2)"
        by (intro js_pow_square) simp_all
      then show ?thesis by (simp only: js_sub_Fin)
    qed
    then show ?thesis by (simp del: js_pow.simps)
  qed
  have var_nonneg: "0 \<le> sum_list (map (\<lambda>v. (v - ?m)\<^sup>2) vs) / ?n"
    by (intro divide_nonneg_nonneg sum_list_nonneg) auto
  have sd: "js_sqrt (js_div (foldl (\<lambda>sum val. js_add sum val) (Fin 0)
              (map Fin (map (\<lambda>v. (v - ?m)\<^sup>2) vs))) (Fin ?n)) = Fin ?sd"
    using n var_nonneg by (simp add: foldl_js_add_Fin pop_stddev_def del: map_map)
  have sd_nonneg: "0 \<le> ?sd"
    using var_nonneg by (simp add: pop_stddev_def)
  have z: "js_gt (js_abs (js_div (js_sub (Fin (vs ! i)) (Fin ?m)) (Fin ?sd))) (Fin z)
      \<longleftrightarrow> ?sd \<noteq> 0 \<and> \<bar>vs ! i - ?m\<bar> / ?sd > z" if "i < length vs" for i
  proof (cases "?sd = 0")
    case True
    then have "sum_list (map (\<lambda>v. (v - ?m)\<^sup>2) vs) = 0"
      using n by (simp add: pop_stddev_def)
    moreover have "vs ! i \<in> set vs" using that by simp
    ultimately have "vs ! i = ?m" by (rule sum_squares_zero)
    with True show ?thesis by (simp add: inf_of_sign_def)
  next
    case False
    with sd_nonneg show ?thesis by simp
  qed
  have "detectOutliers (map Fin vs) (Some (Fin z)) =
      map snd (filter (\<lambda>p. js_gt (js_abs (js_div (js_sub (fst p) (Fin ?m)) (Fin ?sd))) (Fin z))
                 (zip (map Fin vs) [0..<length (map Fin vs)]))"
    using False unfolding detectOutliers_def Let_def
    by (simp add: mean sq sd collect_indices del: map_map)
  also have "\<dots> = filter (\<lambda>i. js_gt (js_abs (js_div (js_sub (map Fin vs ! i) (Fin ?m)) (Fin ?sd))) (Fin z))
                      [0..<length (map Fin vs)]"
    by (rule indices_filter)
  also have "\<dots> = filter (\<lambda>i. ?sd \<noteq> 0 \<and> \<bar>vs ! i - ?m\<bar> / ?sd > z) [0..<length vs]"
  proof (rule filter_cong)
    show "[0..<length (map Fin vs)] = [0..<length vs]" by simp
  next
    fix i assume "i \<in> set [0..<length vs]"
    then have i: "i < length vs" by simp
    then have "map Fin vs ! i = Fin (vs ! i)" by simp
    with z [OF i]
    show "js_gt (js_abs (js_div (js_sub (map Fin vs ! i) (Fin ?m)) (Fin ?sd))) (Fin z)
        = (?sd \<noteq> 0 \<and> \<bar>vs ! i - ?m\<bar> / ?sd > z)"
      by (simp only:)
  qed
  also have "\<dots> = (if ?sd = 0 then [] else filter (\<lambda>i. \<bar>vs ! i - ?m\<bar> / ?sd > z) [0..<length vs])"
    by simp
  finally show ?thesis using False by simp
qed

lemma sqrt_16: "sqrt 16 = 4"
  using real_sqrt_abs [of 4] by simp

theorem detectOutliers_whole_numbers_witness:
  "(0::real) \<in> \<int> \<and> \<bar>0::real\<bar> \<le> 10 ^ 6 \<and> (10::real) \<in> \<int> \<and> \<bar>10::real\<bar> \<le> 10 ^ 6 \<and>
   length [0, 0, 0, 0, 10 :: real] \<le> 1000 \<and>
   1 / 1000 \<le> \<bar>\<bar>0 - pop_mean [0, 0, 0, 0, 10]\<bar> / pop_stddev [0, 0, 0, 0, 10] - 1.5\<bar> \<and>
   1 / 1000 \<le> \<bar>\<bar>10 - pop_mean [0, 0, 0, 0, 10]\<bar> / pop_stddev [0, 0, 0, 0, 10] - 1.5\<bar> \<and>
   detectOutliers (map Fin [0, 0, 0, 0, 10]) (Some (Fin 1.5)) = [4]"
proof -
  have m: "pop_mean [0, 0, 0, 0, 10] = 2" by (simp add: pop_mean_def)
  have sd: "pop_stddev [0, 0, 0, 0, 10] = 4" by (simp add: pop_stddev_def m sqrt_16)
  have up: "[0..<5] = [0, 1, 2, 3, 4]" by (simp add: upt_rec)
  show ?thesis
    using detectOutliers_whole_numbers [of "[0, 0, 0, 0, 10]" "1.5"]
    by (simp add: m sd up)
qed

end
